theory Spec2Isabelle
  imports Main "HOL-Library.Sublist"
begin

section \<open>The API testing client: data model\<close>

text \<open>
  The repository holds one screen in two presentation shells: the browser form
  (\<^verbatim>\<open>src/src/App.tsx\<close>) and the mobile screen (\<^verbatim>\<open>src/unnamed/part_000\<close>).
  Every function below takes the shell as its first argument and has one equation per
  shell, each translated from that shell's file.
\<close>

datatype shell = Browser | Mobile

text \<open>\<^verbatim>\<open>useState<'GET' | 'POST' | 'PUT'>\<close> and \<^verbatim>\<open>useState<'development' | 'production'>\<close>.\<close>

datatype http_method = GET | POST | PUT

datatype environment = Development | Production

fun env_name :: "environment \<Rightarrow> string" where
  "env_name Development = ''development''"
| "env_name Production = ''production''"

section \<open>Status classification\<close>

text \<open>
  \<^verbatim>\<open>getStatusCodeColor (code: number | null)\<close>. The status code is an integer or
  \<^verbatim>\<open>null\<close>; \<^verbatim>\<open>!code\<close> holds for \<^verbatim>\<open>null\<close> and for \<^verbatim>\<open>0\<close>. The browser shell
  returns a CSS class, the mobile shell a hexadecimal colour.
\<close>

fun getStatusCodeColor :: "shell \<Rightarrow> int option \<Rightarrow> string" where
  "getStatusCodeColor Browser code =
     (case code of
        None \<Rightarrow> ''text-gray-600''
      | Some c \<Rightarrow>
          if c = 0 then ''text-gray-600''
          else if c \<ge> 200 \<and> c < 300 then ''text-green-600''
          else if c \<ge> 300 \<and> c < 400 then ''text-blue-600''
          else if c \<ge> 400 \<and> c < 500 then ''text-yellow-600''
          else ''text-red-600'')"
| "getStatusCodeColor Mobile code =
     (case code of
        None \<Rightarrow> ''#6B7280''
      | Some c \<Rightarrow>
          if c = 0 then ''#6B7280''
          else if c \<ge> 200 \<and> c < 300 then ''#10B981''
          else if c \<ge> 300 \<and> c < 400 then ''#3B82F6''
          else if c \<ge> 400 \<and> c < 500 then ''#F59E0B''
          else ''#EF4444'')"

text \<open>
  The severity bucket a display colour stands for: gray, green, blue, yellow and red, as
  the class names of the browser shell and the comments of the mobile shell name them.
\<close>

datatype severity = Neutral | Success | Redirect | ClientError | ServerError

fun bucket :: "shell \<Rightarrow> string \<Rightarrow> severity option" where
  "bucket Browser s =
     (if s = ''text-gray-600'' then Some Neutral
      else if s = ''text-green-600'' then Some Success
      else if s = ''text-blue-600'' then Some Redirect
      else if s = ''text-yellow-600'' then Some ClientError
      else if s = ''text-red-600'' then Some ServerError
      else None)"
| "bucket Mobile s =
     (if s = ''#6B7280'' then Some Neutral
      else if s = ''#10B981'' then Some Success
      else if s = ''#3B82F6'' then Some Redirect
      else if s = ''#F59E0B'' then Some ClientError
      else if s = ''#EF4444'' then Some ServerError
      else None)"

section \<open>The screen's state\<close>

text \<open>
  The \<^verbatim>\<open>useState\<close> slots of \<^verbatim>\<open>App\<close>, the same in both shells. The slot the source
  calls \<^verbatim>\<open>method\<close> is the field \<open>meth\<close>. \<^verbatim>\<open>savedUrls\<close> is an object whose
  properties are read and written by the environment's name.
\<close>

record app_state =
  meth :: http_method
  url :: string
  baseUrl :: string
  environment :: environment
  useAuth :: bool
  token :: string
  jsonBody :: string
  urlParams :: string
  response :: string
  loading :: bool
  copied :: bool
  error :: string
  statusCode :: "int option"
  savedUrls :: "string \<rightharpoonup> string"

text \<open>The initial values of the slots.\<close>

definition initial_state :: app_state where
  "initial_state =
     \<lparr>meth = GET, url = [], baseUrl = [], environment = Development, useAuth = False,
      token = [], jsonBody = [], urlParams = [], response = [], loading = False,
      copied = False, error = [], statusCode = None,
      savedUrls = [''development'' \<mapsto> [], ''production'' \<mapsto> []]\<rparr>"

section \<open>The host: JSON, the transport, the key-value storage\<close>

text \<open>
  \<^verbatim>\<open>JSON.parse\<close>, \<^verbatim>\<open>JSON.stringify\<close> and \<^verbatim>\<open>fetch\<close> are not code of the repository.
  They are arguments of the model: what the code does is proved for every host and every
  transport, and where a property depends on what the host does, the host's standard
  behaviour is written out. \<open>'j\<close> is the type of parsed JSON values; \<open>JSON_parse\<close> is
  \<open>None\<close> where \<^verbatim>\<open>JSON.parse\<close> throws; \<open>JSON_stringify\<close> is
  \<^verbatim>\<open>JSON.stringify(v, null, 2)\<close>.
\<close>

record 'j host =
  JSON_parse :: "string \<Rightarrow> 'j option"
  JSON_stringify :: "'j \<Rightarrow> string"

text \<open>
  A thrown value, as the handler reads it:
  \<^verbatim>\<open>err instanceof Error ? err.message : String(err)\<close>.
\<close>

datatype js_exn = Error string | Thrown string

fun err_text :: "js_exn \<Rightarrow> string" where
  "err_text (Error message) = message"
| "err_text (Thrown s) = s"

text \<open>
  The request options \<^verbatim>\<open>{method, headers, body?}\<close> and the response as the handler uses
  it: \<^verbatim>\<open>res.status\<close>, the outcome of \<^verbatim>\<open>await res.json()\<close> and the outcome of
  \<^verbatim>\<open>await res.text()\<close>, each of which resolves or rejects. \<^verbatim>\<open>fetch\<close> resolves with a
  response or rejects.
\<close>

record request_init =
  opt_method :: http_method
  opt_headers :: "string \<rightharpoonup> string"
  opt_body :: "string option"

record 'j http_response =
  res_status :: int
  res_json :: "js_exn + 'j"
  res_text :: "js_exn + string"

type_synonym 'j transport = "string \<Rightarrow> request_init \<Rightarrow> js_exn + 'j http_response"

text \<open>
  The response of a standard \<^verbatim>\<open>fetch\<close> client, with a status code and a body
  (\<open>None\<close> is the null body of a 204 or 304 response). Its body can be consumed once
  (Fetch Standard, "consume body": a body whose stream is disturbed is unusable, and
  reading it rejects with a \<^verbatim>\<open>TypeError\<close>). \<^verbatim>\<open>res.json()\<close> reads the whole body and
  parses it as \<^verbatim>\<open>JSON.parse\<close> does; the handler calls \<^verbatim>\<open>res.text()\<close> only after
  \<^verbatim>\<open>res.json()\<close> has rejected, when the body has been read already, so that
  \<^verbatim>\<open>res.text()\<close> rejects unless the body is null. The handler does not read the
  message of the syntax error; the message of the \<^verbatim>\<open>TypeError\<close> differs from one client
  to the other and is an argument.
\<close>

definition standard_response :: "'j host \<Rightarrow> string \<Rightarrow> int \<Rightarrow> string option \<Rightarrow> 'j http_response" where
  "standard_response H already_read code body =
     \<lparr>res_status = code,
      res_json =
        (case JSON_parse H (case body of None \<Rightarrow> [] | Some b \<Rightarrow> b) of
           Some parsed \<Rightarrow> Inr parsed
         | None \<Rightarrow> Inl (Error ''Unexpected token'')),
      res_text = (case body of None \<Rightarrow> Inr [] | Some b \<Rightarrow> Inl (Error already_read))\<rparr>"

definition fetch_standard :: "'j host \<Rightarrow> string \<Rightarrow> int \<Rightarrow> string option \<Rightarrow> 'j transport" where
  "fetch_standard H already_read code body u opts = Inr (standard_response H already_read code body)"

section \<open>The request and response pipeline\<close>

text \<open>The template \<^verbatim>\<open>`${baseUrl}${url}${urlParams ? `?${urlParams}` : ''}`\<close>.\<close>

fun fullUrl :: "shell \<Rightarrow> app_state \<Rightarrow> string" where
  "fullUrl Browser st =
     baseUrl st @ url st @ (if urlParams st \<noteq> [] then ''?'' @ urlParams st else [])"
| "fullUrl Mobile st =
     baseUrl st @ url st @ (if urlParams st \<noteq> [] then ''?'' @ urlParams st else [])"

text \<open>The header object: the content type, and the bearer token under \<^verbatim>\<open>useAuth && token\<close>.\<close>

fun headers :: "shell \<Rightarrow> app_state \<Rightarrow> (string \<rightharpoonup> string)" where
  "headers Browser st =
     (let h = [''Content-Type'' \<mapsto> ''application/json'']
      in if useAuth st \<and> token st \<noteq> [] then h(''Authorization'' \<mapsto> ''Bearer '' @ token st)
         else h)"
| "headers Mobile st =
     (let h = [''Content-Type'' \<mapsto> ''application/json'']
      in if useAuth st \<and> token st \<noteq> [] then h(''Authorization'' \<mapsto> ''Bearer '' @ token st)
         else h)"

text \<open>
  The request options. Under \<^verbatim>\<open>method !== 'GET' && jsonBody\<close> the body is validated by
  \<^verbatim>\<open>JSON.parse\<close> and attached as it is; \<open>None\<close> is the \<^verbatim>\<open>catch\<close> branch, where the
  handler sets the error and returns.
\<close>

fun options :: "shell \<Rightarrow> 'j host \<Rightarrow> app_state \<Rightarrow> request_init option" where
  "options Browser H st =
     (let opts = \<lparr>opt_method = meth st, opt_headers = headers Browser st, opt_body = None\<rparr>
      in if meth st \<noteq> GET \<and> jsonBody st \<noteq> [] then
           (case JSON_parse H (jsonBody st) of
              Some parsed \<Rightarrow> Some (opts\<lparr>opt_body := Some (jsonBody st)\<rparr>)
            | None \<Rightarrow> None)
         else Some opts)"
| "options Mobile H st =
     (let opts = \<lparr>opt_method = meth st, opt_headers = headers Mobile st, opt_body = None\<rparr>
      in if meth st \<noteq> GET \<and> jsonBody st \<noteq> [] then
           (case JSON_parse H (jsonBody st) of
              Some parsed \<Rightarrow> Some (opts\<lparr>opt_body := Some (jsonBody st)\<rparr>)
            | None \<Rightarrow> None)
         else Some opts)"

text \<open>
  \<^verbatim>\<open>handleSubmit\<close>. The result is the state after the handler has run and the list of
  the calls of \<^verbatim>\<open>fetch\<close> it made, each with its URL and options. A rejection of
  \<^verbatim>\<open>fetch\<close> or of \<^verbatim>\<open>res.text()\<close> reaches the outer \<^verbatim>\<open>catch\<close>; a rejection of
  \<^verbatim>\<open>res.json()\<close> reaches the inner one. \<^verbatim>\<open>finally\<close> clears \<^verbatim>\<open>loading\<close> on every path.
  The browser shell first calls \<^verbatim>\<open>e.preventDefault()\<close> on the form event, which touches
  no slot.
\<close>

fun handleSubmit ::
  "shell \<Rightarrow> 'j host \<Rightarrow> 'j transport \<Rightarrow> app_state \<Rightarrow> app_state \<times> (string \<times> request_init) list"
where
  "handleSubmit Browser H fetch st =
     (let st1 = st\<lparr>loading := True, error := [], response := [], statusCode := None\<rparr>
      in case options Browser H st of
           None \<Rightarrow> (st1\<lparr>error := ''Invalid JSON in request body'', loading := False\<rparr>, [])
         | Some opts \<Rightarrow>
             (case fetch (fullUrl Browser st) opts of
                Inl err \<Rightarrow>
                  (st1\<lparr>error := ''Request failed: '' @ err_text err, loading := False\<rparr>,
                   [(fullUrl Browser st, opts)])
              | Inr res \<Rightarrow>
                  (let st2 = st1\<lparr>statusCode := Some (res_status res)\<rparr>
                   in case res_json res of
                        Inr data \<Rightarrow>
                          (st2\<lparr>response := JSON_stringify H data, loading := False\<rparr>,
                           [(fullUrl Browser st, opts)])
                      | Inl e \<Rightarrow>
                          (case res_text res of
                             Inr txt \<Rightarrow>
                               (st2\<lparr>response := (if txt \<noteq> [] then txt else ''No response body''),
                                    loading := False\<rparr>,
                                [(fullUrl Browser st, opts)])
                           | Inl err \<Rightarrow>
                               (st2\<lparr>error := ''Request failed: '' @ err_text err, loading := False\<rparr>,
                                [(fullUrl Browser st, opts)])))))"
| "handleSubmit Mobile H fetch st =
     (let st1 = st\<lparr>loading := True, error := [], response := [], statusCode := None\<rparr>
      in case options Mobile H st of
           None \<Rightarrow> (st1\<lparr>error := ''Invalid JSON in request body'', loading := False\<rparr>, [])
         | Some opts \<Rightarrow>
             (case fetch (fullUrl Mobile st) opts of
                Inl err \<Rightarrow>
                  (st1\<lparr>error := ''Request failed: '' @ err_text err, loading := False\<rparr>,
                   [(fullUrl Mobile st, opts)])
              | Inr res \<Rightarrow>
                  (let st2 = st1\<lparr>statusCode := Some (res_status res)\<rparr>
                   in case res_json res of
                        Inr data \<Rightarrow>
                          (st2\<lparr>response := JSON_stringify H data, loading := False\<rparr>,
                           [(fullUrl Mobile st, opts)])
                      | Inl e \<Rightarrow>
                          (case res_text res of
                             Inr txt \<Rightarrow>
                               (st2\<lparr>response := (if txt \<noteq> [] then txt else ''No response body''),
                                    loading := False\<rparr>,
                                [(fullUrl Mobile st, opts)])
                           | Inl err \<Rightarrow>
                               (st2\<lparr>error := ''Request failed: '' @ err_text err, loading := False\<rparr>,
                                [(fullUrl Mobile st, opts)])))))"

text \<open>\<^verbatim>\<open>formatJsonBody\<close>: the Format JSON action on the request body.\<close>

fun formatJsonBody :: "shell \<Rightarrow> 'j host \<Rightarrow> app_state \<Rightarrow> app_state" where
  "formatJsonBody Browser H st =
     (case JSON_parse H (jsonBody st) of
        Some parsed \<Rightarrow> st\<lparr>jsonBody := JSON_stringify H parsed\<rparr>
      | None \<Rightarrow> st\<lparr>error := ''Invalid JSON in request body''\<rparr>)"
| "formatJsonBody Mobile H st =
     (case JSON_parse H (jsonBody st) of
        Some parsed \<Rightarrow> st\<lparr>jsonBody := JSON_stringify H parsed\<rparr>
      | None \<Rightarrow> st\<lparr>error := ''Invalid JSON in request body''\<rparr>)"

section \<open>The environment store\<close>

text \<open>
  The storage collaborator (\<^verbatim>\<open>localStorage\<close>, \<^verbatim>\<open>AsyncStorage\<close>) is a store from keys to
  strings: \<^verbatim>\<open>getItem\<close> reads a key, \<^verbatim>\<open>setItem\<close> writes one. On the saved URLs,
  \<open>urls_stringify\<close> is \<^verbatim>\<open>JSON.stringify(newSavedUrls)\<close> and \<open>urls_parse\<close> is
  \<^verbatim>\<open>JSON.parse(savedData)\<close>, \<open>None\<close> where it throws.
\<close>

type_synonym storage = "string \<rightharpoonup> string"

record url_json =
  urls_parse :: "string \<Rightarrow> (string \<rightharpoonup> string) option"
  urls_stringify :: "(string \<rightharpoonup> string) \<Rightarrow> string"

text \<open>
  \<^verbatim>\<open>saveBaseUrl\<close>: the object \<^verbatim>\<open>{...savedUrls, [environment]: baseUrl}\<close> replaces
  \<^verbatim>\<open>savedUrls\<close> and is written under the key \<^verbatim>\<open>apiTesterUrls\<close>.
\<close>

fun saveBaseUrl :: "shell \<Rightarrow> url_json \<Rightarrow> app_state \<Rightarrow> storage \<Rightarrow> app_state \<times> storage" where
  "saveBaseUrl Browser J st store =
     (let newSavedUrls = (savedUrls st)(env_name (environment st) \<mapsto> baseUrl st)
      in (st\<lparr>savedUrls := newSavedUrls\<rparr>,
          store(''apiTesterUrls'' \<mapsto> urls_stringify J newSavedUrls)))"
| "saveBaseUrl Mobile J st store =
     (let newSavedUrls = (savedUrls st)(env_name (environment st) \<mapsto> baseUrl st)
      in (st\<lparr>savedUrls := newSavedUrls\<rparr>,
          store(''apiTesterUrls'' \<mapsto> urls_stringify J newSavedUrls)))"

text \<open>
  The effect on \<^verbatim>\<open>[environment, savedUrls]\<close>:
  \<^verbatim>\<open>setBaseUrl(savedUrls[environment] || '')\<close>.
\<close>

fun updateBaseUrl :: "shell \<Rightarrow> app_state \<Rightarrow> app_state" where
  "updateBaseUrl Browser st =
     st\<lparr>baseUrl := (case savedUrls st (env_name (environment st)) of None \<Rightarrow> [] | Some u \<Rightarrow> u)\<rparr>"
| "updateBaseUrl Mobile st =
     st\<lparr>baseUrl := (case savedUrls st (env_name (environment st)) of None \<Rightarrow> [] | Some u \<Rightarrow> u)\<rparr>"

text \<open>
  The load effect of the mount (\<^verbatim>\<open>loadSavedUrls\<close> in the mobile shell). Its
  \<^verbatim>\<open>setSavedUrls(parsed)\<close> changes \<^verbatim>\<open>savedUrls\<close>, so the effect above runs after it and
  sets \<^verbatim>\<open>baseUrl\<close> over the \<^verbatim>\<open>setBaseUrl(parsed[environment])\<close> of the load. The browser
  shell does not catch a throwing \<^verbatim>\<open>JSON.parse\<close> (the result \<open>None\<close>); the mobile shell
  catches it, logs it and leaves the state as it was.
\<close>

fun loadSavedUrls :: "shell \<Rightarrow> url_json \<Rightarrow> app_state \<Rightarrow> storage \<Rightarrow> app_state option" where
  "loadSavedUrls Browser J st store =
     (case store ''apiTesterUrls'' of
        None \<Rightarrow> Some st
      | Some savedData \<Rightarrow>
          if savedData \<noteq> [] then
            (case urls_parse J savedData of
               None \<Rightarrow> None
             | Some parsed \<Rightarrow>
                 Some (updateBaseUrl Browser (st\<lparr>savedUrls := parsed\<rparr>)))
          else Some st)"
| "loadSavedUrls Mobile J st store =
     (case store ''apiTesterUrls'' of
        None \<Rightarrow> Some st
      | Some savedData \<Rightarrow>
          if savedData \<noteq> [] then
            (case urls_parse J savedData of
               None \<Rightarrow> Some st
             | Some parsed \<Rightarrow>
                 Some (updateBaseUrl Mobile (st\<lparr>savedUrls := parsed\<rparr>)))
          else Some st)"

section \<open>JSON values and a model of the JSON functions\<close>

text \<open>
  The values \<^verbatim>\<open>JSON.parse\<close> returns: \<^verbatim>\<open>null\<close>, a boolean, a number, a string, an
  array or an object. \<open>'n\<close> is the type of the finite numbers, compared by their
  numeric value; a number literal beyond the range of a double parses to \<^verbatim>\<open>Infinity\<close>
  or \<^verbatim>\<open>-Infinity\<close>. An object is the list of its members.
\<close>

datatype 'n js_number = Finite 'n | Infinity | MinusInfinity

datatype 'n js_value =
  JNull | JBool bool | JNumber "'n js_number" | JString string
  | JArray "'n js_value list" | JObject "(string \<times> 'n js_value) list"

text \<open>A value that holds no non-finite number, at any depth.\<close>

fun finite_value :: "'n js_value \<Rightarrow> bool" where
  "finite_value (JNumber x) =
     (case x of Finite n \<Rightarrow> True | Infinity \<Rightarrow> False | MinusInfinity \<Rightarrow> False)"
| "finite_value (JArray vs) = list_all finite_value vs"
| "finite_value (JObject ms) = list_all (\<lambda>m. finite_value (snd m)) ms"
| "finite_value v = True"

text \<open>
  The contract of the host's JSON functions that the Format JSON action relies on:
  \<^verbatim>\<open>JSON.parse\<close> gives every value it can return, unless the value holds a non-finite
  number, back from the text \<^verbatim>\<open>JSON.stringify(v, null, 2)\<close> writes for it. A non-finite
  number is written as \<^verbatim>\<open>null\<close> and cannot come back.
\<close>

definition round_trips :: "'n js_value host \<Rightarrow> bool" where
  "round_trips H =
     (\<forall>s v. JSON_parse H s = Some v \<and> finite_value v \<longrightarrow>
        JSON_parse H (JSON_stringify H v) = Some v)"

text \<open>
  A model of the two functions, on values whose numbers are integers written in
  decimal without fraction and exponent (a number literal of another form is rejected)
  and whose strings are byte strings. It shows that the contract can be met, by a parser
  of the JSON grammar and a printer of the layout of \<^verbatim>\<open>JSON.stringify(v, null, 2)\<close>.
\<close>

definition is_ws :: "char \<Rightarrow> bool" where
  "is_ws c = (c = CHR '' '' \<or> c = CHR 0x0A \<or> c = CHR 0x0D \<or> c = CHR 0x09)"

definition skip_ws :: "string \<Rightarrow> string" where
  "skip_ws = dropWhile is_ws"

definition is_digit :: "char \<Rightarrow> bool" where
  "is_digit c = (48 \<le> (of_char c :: nat) \<and> (of_char c :: nat) \<le> 57)"

text \<open>Numbers: an optional minus sign and decimal digits, without a leading zero.\<close>

fun show_nat :: "nat \<Rightarrow> string" where
  "show_nat n =
     (if n < 10 then [char_of (48 + n)]
      else show_nat (n div 10) @ [char_of (48 + n mod 10)])"

definition show_int :: "int \<Rightarrow> string" where
  "show_int i = (if i < 0 then CHR ''-'' # show_nat (nat (- i)) else show_nat (nat i))"

definition read_nat :: "string \<Rightarrow> nat" where
  "read_nat ds = foldl (\<lambda>a c. 10 * a + (of_char c - 48)) 0 ds"

definition read_number :: "string \<Rightarrow> (int \<times> string) option" where
  "read_number s =
     (let negative = (case s of [] \<Rightarrow> False | c # r \<Rightarrow> c = CHR ''-'');
          t = (if negative then tl s else s);
          ds = takeWhile is_digit t
      in if ds = [] \<or> (1 < length ds \<and> hd ds = CHR ''0'') then None
         else Some (if negative then - int (read_nat ds) else int (read_nat ds),
                    dropWhile is_digit t))"

text \<open>
  Strings: the quotation mark, the backslash and the control characters are escaped, the
  control characters by their short form or by \<^verbatim>\<open>u\<close> and four hexadecimal digits; a
  control character that is not escaped is rejected.
\<close>

definition hex_digit :: "nat \<Rightarrow> char" where
  "hex_digit n = ''0123456789abcdef'' ! n"

definition hex_val :: "char \<Rightarrow> nat option" where
  "hex_val c =
     (if is_digit c then Some (of_char c - 48)
      else if 97 \<le> (of_char c :: nat) \<and> (of_char c :: nat) \<le> 102 then Some (of_char c - 87)
      else if 65 \<le> (of_char c :: nat) \<and> (of_char c :: nat) \<le> 70 then Some (of_char c - 55)
      else None)"

definition unicode_escape :: "char \<Rightarrow> char \<Rightarrow> char \<Rightarrow> char \<Rightarrow> char option" where
  "unicode_escape h1 h2 h3 h4 =
     (case (hex_val h1, hex_val h2, hex_val h3, hex_val h4) of
        (Some a, Some b, Some c, Some d) \<Rightarrow>
          if ((a * 16 + b) * 16 + c) * 16 + d < 256
          then Some (char_of (((a * 16 + b) * 16 + c) * 16 + d)) else None
      | _ \<Rightarrow> None)"

definition simple_escape :: "char \<Rightarrow> char option" where
  "simple_escape e =
     (if e = CHR 0x22 then Some (CHR 0x22)
      else if e = CHR 0x5C then Some (CHR 0x5C)
      else if e = CHR ''/'' then Some CHR ''/''
      else if e = CHR ''b'' then Some (CHR 0x08)
      else if e = CHR ''f'' then Some (CHR 0x0C)
      else if e = CHR ''n'' then Some (CHR 0x0A)
      else if e = CHR ''r'' then Some (CHR 0x0D)
      else if e = CHR ''t'' then Some (CHR 0x09)
      else None)"

definition escape_char :: "char \<Rightarrow> string" where
  "escape_char c =
     (if c = CHR 0x22 then [CHR 0x5C, CHR 0x22]
      else if c = CHR 0x5C then [CHR 0x5C, CHR 0x5C]
      else if c = CHR 0x08 then [CHR 0x5C, CHR ''b'']
      else if c = CHR 0x0C then [CHR 0x5C, CHR ''f'']
      else if c = CHR 0x0A then [CHR 0x5C, CHR ''n'']
      else if c = CHR 0x0D then [CHR 0x5C, CHR ''r'']
      else if c = CHR 0x09 then [CHR 0x5C, CHR ''t'']
      else if (of_char c :: nat) < 32 then
        [CHR 0x5C, CHR ''u'', CHR ''0'', CHR ''0'',
         hex_digit (of_char c div 16), hex_digit (of_char c mod 16)]
      else [c])"

definition quote :: "string \<Rightarrow> string" where
  "quote s = CHR 0x22 # concat (map escape_char s) @ [CHR 0x22]"

fun read_chars :: "string \<Rightarrow> (string \<times> string) option" where
  "read_chars [] = None"
| "read_chars (c # cs) =
     (if c = CHR 0x22 then Some ([], cs)
      else if c = CHR 0x5C then
        (case cs of
           [] \<Rightarrow> None
         | e # r \<Rightarrow>
             if e = CHR ''u'' then
               (case r of
                  h1 # h2 # h3 # h4 # r' \<Rightarrow>
                    (case unicode_escape h1 h2 h3 h4 of
                       None \<Rightarrow> None
                     | Some d \<Rightarrow>
                         (case read_chars r' of
                            None \<Rightarrow> None
                          | Some (s, r'') \<Rightarrow> Some (d # s, r'')))
                | _ \<Rightarrow> None)
             else
               (case simple_escape e of
                  None \<Rightarrow> None
                | Some d \<Rightarrow>
                    (case read_chars r of
                       None \<Rightarrow> None
                     | Some (s, r'') \<Rightarrow> Some (d # s, r''))))
      else if (of_char c :: nat) < 32 then None
      else (case read_chars cs of None \<Rightarrow> None | Some (s, r) \<Rightarrow> Some (c # s, r)))"

text \<open>
  The printer, at an indentation: an empty array or object on one line, otherwise one
  element or member per line, two spaces deeper, and the closing bracket on a line of its
  own. A non-finite number is written as \<^verbatim>\<open>null\<close>.
\<close>

fun show_value :: "nat \<Rightarrow> int js_value \<Rightarrow> string"
  and show_elements :: "nat \<Rightarrow> int js_value list \<Rightarrow> string"
  and show_members :: "nat \<Rightarrow> (string \<times> int js_value) list \<Rightarrow> string" where
  "show_value ind JNull = ''null''"
| "show_value ind (JBool b) = (if b then ''true'' else ''false'')"
| "show_value ind (JNumber x) =
     (case x of Finite i \<Rightarrow> show_int i | Infinity \<Rightarrow> ''null'' | MinusInfinity \<Rightarrow> ''null'')"
| "show_value ind (JString s) = quote s"
| "show_value ind (JArray vs) =
     (if vs = [] then ''[]''
      else CHR ''['' # CHR 0x0A # show_elements (ind + 2) vs
           @ CHR 0x0A # replicate ind CHR '' '' @ '']'')"
| "show_value ind (JObject ms) =
     (if ms = [] then ''{}''
      else CHR ''{'' # CHR 0x0A # show_members (ind + 2) ms
           @ CHR 0x0A # replicate ind CHR '' '' @ ''}'')"
| "show_elements ind [] = []"
| "show_elements ind (v # vs) =
     replicate ind CHR '' '' @ show_value ind v
     @ (if vs = [] then [] else CHR '','' # CHR 0x0A # show_elements ind vs)"
| "show_members ind [] = []"
| "show_members ind (m # ms) =
     replicate ind CHR '' '' @ quote (fst m) @ '': '' @ show_value ind (snd m)
     @ (if ms = [] then [] else CHR '','' # CHR 0x0A # show_members ind ms)"

text \<open>
  The parser, by recursive descent. Its first argument bounds the depth of the calls and
  is decreased by each; the length of the text is enough for every text.
\<close>

fun parse_value :: "nat \<Rightarrow> string \<Rightarrow> (int js_value \<times> string) option"
  and parse_elements :: "nat \<Rightarrow> string \<Rightarrow> (int js_value list \<times> string) option"
  and parse_members :: "nat \<Rightarrow> string \<Rightarrow> ((string \<times> int js_value) list \<times> string) option" where
  "parse_value 0 s = None"
| "parse_value (Suc n) s =
     (case skip_ws s of
        [] \<Rightarrow> None
      | c # cs \<Rightarrow>
          if c = CHR ''{'' then
            (case skip_ws cs of
               [] \<Rightarrow> None
             | d # ds \<Rightarrow>
                 if d = CHR ''}'' then Some (JObject [], ds)
                 else (case parse_members n cs of
                         None \<Rightarrow> None
                       | Some (ms, r) \<Rightarrow> Some (JObject ms, r)))
          else if c = CHR ''['' then
            (case skip_ws cs of
               [] \<Rightarrow> None
             | d # ds \<Rightarrow>
                 if d = CHR '']'' then Some (JArray [], ds)
                 else (case parse_elements n cs of
                         None \<Rightarrow> None
                       | Some (vs, r) \<Rightarrow> Some (JArray vs, r)))
          else if c = CHR 0x22 then
            (case read_chars cs of None \<Rightarrow> None | Some (t, r) \<Rightarrow> Some (JString t, r))
          else if c = CHR ''n'' then
            (if take 3 cs = ''ull'' then Some (JNull, drop 3 cs) else None)
          else if c = CHR ''t'' then
            (if take 3 cs = ''rue'' then Some (JBool True, drop 3 cs) else None)
          else if c = CHR ''f'' then
            (if take 4 cs = ''alse'' then Some (JBool False, drop 4 cs) else None)
          else
            (case read_number (c # cs) of
               None \<Rightarrow> None
             | Some (i, r) \<Rightarrow> Some (JNumber (Finite i), r)))"
| "parse_elements 0 s = None"
| "parse_elements (Suc n) s =
     (case parse_value n s of
        None \<Rightarrow> None
      | Some (v, r) \<Rightarrow>
          (case skip_ws r of
             [] \<Rightarrow> None
           | c # cs \<Rightarrow>
               if c = CHR '','' then
                 (case parse_elements n cs of
                    None \<Rightarrow> None
                  | Some (vs, r') \<Rightarrow> Some (v # vs, r'))
               else if c = CHR '']'' then Some ([v], cs)
               else None))"
| "parse_members 0 s = None"
| "parse_members (Suc n) s =
     (case skip_ws s of
        [] \<Rightarrow> None
      | q # cs \<Rightarrow>
          if q = CHR 0x22 then
            (case read_chars cs of
               None \<Rightarrow> None
             | Some (k, r) \<Rightarrow>
                 (case skip_ws r of
                    [] \<Rightarrow> None
                  | c # r1 \<Rightarrow>
                      if c = CHR '':'' then
                        (case parse_value n r1 of
                           None \<Rightarrow> None
                         | Some (v, r2) \<Rightarrow>
                             (case skip_ws r2 of
                                [] \<Rightarrow> None
                              | d # r3 \<Rightarrow>
                                  if d = CHR '','' then
                                    (case parse_members n r3 of
                                       None \<Rightarrow> None
                                     | Some (ms, r4) \<Rightarrow> Some ((k, v) # ms, r4))
                                  else if d = CHR ''}'' then Some ([(k, v)], r3)
                                  else None))
                      else None))
          else None)"

definition model_parse :: "string \<Rightarrow> int js_value option" where
  "model_parse s =
     (case parse_value (length s) s of
        None \<Rightarrow> None
      | Some (v, r) \<Rightarrow> if skip_ws r = [] then Some v else None)"

definition model_stringify :: "int js_value \<Rightarrow> string" where
  "model_stringify v = show_value 0 v"

definition model_host :: "int js_value host" where
  "model_host = \<lparr>JSON_parse = model_parse, JSON_stringify = model_stringify\<rparr>"

text \<open>The end of a number: the text that follows it does not begin with a digit.\<close>

definition number_end :: "string \<Rightarrow> bool" where
  "number_end rest = (rest = [] \<or> \<not> is_digit (hd rest))"

section \<open>Sample inputs\<close>

text \<open>
  A few points of the host's JSON functions, for running the model on concrete inputs.
  On the texts and values listed, \<open>sample_parse\<close> and \<open>sample_stringify\<close> are what
  ECMAScript's \<^verbatim>\<open>JSON.parse(text)\<close> and \<^verbatim>\<open>JSON.stringify(value, null, 2)\<close> return:
  the number literal \<^verbatim>\<open>1e999\<close> is beyond the range of a double and parses to
  \<^verbatim>\<open>Infinity\<close>, which has no JSON text and is serialised as \<^verbatim>\<open>null\<close>. Of the texts
  that are not listed, only \<^verbatim>\<open>{invalid\<close>, \<^verbatim>\<open>hello\<close> and the empty text are used below,
  and \<^verbatim>\<open>JSON.parse\<close> rejects the three.
\<close>

definition sample_parse :: "string \<Rightarrow> int js_value option" where
  "sample_parse s =
     (if s = ''null'' then Some JNull
      else if s = ''1e999'' then Some (JNumber Infinity)
      else if s = ''{\"a\":1}'' then Some (JObject [(''a'', JNumber (Finite 1))])
      else if s = ''{\<newline>  \"a\": 1\<newline>}'' then Some (JObject [(''a'', JNumber (Finite 1))])
      else if s = ''{\"error\":\"missing\"}'' then Some (JObject [(''error'', JString ''missing'')])
      else if s = ''{\<newline>  \"error\": \"missing\"\<newline>}''
        then Some (JObject [(''error'', JString ''missing'')])
      else None)"

definition sample_stringify :: "int js_value \<Rightarrow> string" where
  "sample_stringify v =
     (if v = JNull then ''null''
      else if v = JNumber Infinity then ''null''
      else if v = JObject [(''a'', JNumber (Finite 1))] then ''{\<newline>  \"a\": 1\<newline>}''
      else if v = JObject [(''error'', JString ''missing'')]
        then ''{\<newline>  \"error\": \"missing\"\<newline>}''
      else [])"

definition sample_host :: "int js_value host" where
  "sample_host = \<lparr>JSON_parse = sample_parse, JSON_stringify = sample_stringify\<rparr>"

text \<open>
  Four transports. Three are standard clients: one answers 404 with the JSON body
  \<^verbatim>\<open>{"error":"missing"}\<close>, one answers 200 with the body \<^verbatim>\<open>hello\<close>, which is not
  JSON, and one answers 204 with the null body. The last one rejects as a refused
  connection does.
\<close>

definition fetch_not_found :: "int js_value transport" where
  "fetch_not_found =
     fetch_standard sample_host ''body stream already read'' 404 (Some ''{\"error\":\"missing\"}'')"

definition fetch_plain :: "int js_value transport" where
  "fetch_plain = fetch_standard sample_host ''body stream already read'' 200 (Some ''hello'')"

definition fetch_empty :: "int js_value transport" where
  "fetch_empty = fetch_standard sample_host ''body stream already read'' 204 None"

definition fetch_refused :: "int js_value transport" where
  "fetch_refused u opts = Inl (Error ''Failed to fetch'')"

text \<open>
  A submission of each kind: a GET with a query and a token, and a POST whose body is
  valid JSON, is not JSON, or is empty.
\<close>

definition get_users :: app_state where
  "get_users =
     initial_state\<lparr>baseUrl := ''http://localhost:3000'', url := ''/api/users'',
                   urlParams := ''id=1'', useAuth := True, token := ''abc'',
                   jsonBody := ''{invalid''\<rparr>"

definition post_valid :: app_state where
  "post_valid =
     initial_state\<lparr>meth := POST, baseUrl := ''http://localhost:3000'', url := ''/api/users'',
                   useAuth := True, jsonBody := ''{\"a\":1}''\<rparr>"

definition post_invalid :: app_state where
  "post_invalid = post_valid\<lparr>jsonBody := ''{invalid''\<rparr>"

definition post_empty :: app_state where
  "post_empty = post_valid\<lparr>meth := PUT, jsonBody := []\<rparr>"

text \<open>
  The saved URLs of a development server and their JSON text. \<open>sample_urls_stringify\<close>
  is \<^verbatim>\<open>JSON.stringify\<close> on an object that holds both environments with strings that
  need no escape; \<open>sample_urls_parse\<close> is \<^verbatim>\<open>JSON.parse\<close> on the one text listed.
\<close>

definition dev_urls :: "string \<rightharpoonup> string" where
  "dev_urls = [''development'' \<mapsto> ''http://localhost:3000'', ''production'' \<mapsto> []]"

definition dev_urls_text :: string where
  "dev_urls_text = ''{\"development\":\"http://localhost:3000\",\"production\":\"\"}''"

definition sample_urls_stringify :: "(string \<rightharpoonup> string) \<Rightarrow> string" where
  "sample_urls_stringify m =
     ''{\"development\":\"'' @ (case m ''development'' of None \<Rightarrow> [] | Some u \<Rightarrow> u)
       @ ''\",\"production\":\"'' @ (case m ''production'' of None \<Rightarrow> [] | Some u \<Rightarrow> u)
       @ ''\"}''"

definition sample_urls_parse :: "string \<Rightarrow> (string \<rightharpoonup> string) option" where
  "sample_urls_parse s = (if s = dev_urls_text then Some dev_urls else None)"

definition sample_url_json :: url_json where
  "sample_url_json =
     \<lparr>urls_parse = sample_urls_parse, urls_stringify = sample_urls_stringify\<rparr>"

text \<open>
  A call of the transport failed when \<^verbatim>\<open>fetch\<close> rejected it, for the calls a submission
  made.
\<close>

definition transport_failed :: "'j transport \<Rightarrow> (string \<times> request_init) list \<Rightarrow> bool" where
  "transport_failed fetch calls = list_ex (\<lambda>(u, opts). isl (fetch u opts)) calls"

section \<open>Status classification: properties\<close>

lemma bucket_getStatusCodeColor:
  "bucket sh (getStatusCodeColor sh code) =
     Some (case code of
             None \<Rightarrow> Neutral
           | Some c \<Rightarrow>
               if c = 0 then Neutral
               else if 200 \<le> c \<and> c < 300 then Success
               else if 300 \<le> c \<and> c < 400 then Redirect
               else if 400 \<le> c \<and> c < 500 then ClientError
               else ServerError)"
  by (cases sh; cases code) simp_all

text \<open>
  C1, as the code has it. The classification is total and lands in exactly one bucket, the
  same in both shells: an absent code and the code 0 are neutral, 200-299 is success,
  300-399 is redirect, 400-499 is client-error, and every other integer is server-error:
  500 and above, and also the non-zero codes below 200.
\<close>

theorem status_classification:
  "bucket Browser (getStatusCodeColor Browser code) = bucket Mobile (getStatusCodeColor Mobile code)
   \<and> (\<exists>b. bucket sh (getStatusCodeColor sh code) = Some b)
   \<and> (bucket sh (getStatusCodeColor sh code) = Some Neutral) = (code = None \<or> code = Some 0)
   \<and> (bucket sh (getStatusCodeColor sh code) = Some Success) = (\<exists>c. code = Some c \<and> 200 \<le> c \<and> c < 300)
   \<and> (bucket sh (getStatusCodeColor sh code) = Some Redirect) = (\<exists>c. code = Some c \<and> 300 \<le> c \<and> c < 400)
   \<and> (bucket sh (getStatusCodeColor sh code) = Some ClientError) = (\<exists>c. code = Some c \<and> 400 \<le> c \<and> c < 500)
   \<and> (bucket sh (getStatusCodeColor sh code) = Some ServerError) =
       (\<exists>c. code = Some c \<and> c \<noteq> 0 \<and> (c < 200 \<or> 500 \<le> c))"
  unfolding bucket_getStatusCodeColor by (cases code) auto

text \<open>The codes 404, 0 and 503 and the absent code, in both shells.\<close>

theorem status_classification_witness:
  "bucket Browser (getStatusCodeColor Browser (Some 404)) = Some ClientError
   \<and> bucket Mobile (getStatusCodeColor Mobile (Some 404)) = Some ClientError
   \<and> bucket Mobile (getStatusCodeColor Mobile (Some 0)) = Some Neutral
   \<and> bucket Browser (getStatusCodeColor Browser None) = Some Neutral
   \<and> bucket Browser (getStatusCodeColor Browser (Some 503)) = Some ServerError"
  using status_classification [where sh = Browser and code = "Some 404"]
    status_classification [where sh = Mobile and code = "Some 0"]
    status_classification [where sh = Browser and code = None]
    status_classification [where sh = Browser and code = "Some 503"]
  by simp

text \<open>
  C1 as the specification words it puts every code below 200 in the neutral bucket. The
  informational code 100 is coloured red, the server-error colour, in both shells.
\<close>

theorem status_100_counterexample:
  "getStatusCodeColor Browser (Some 100) = ''text-red-600''
   \<and> getStatusCodeColor Mobile (Some 100) = ''#EF4444''
   \<and> bucket Browser (getStatusCodeColor Browser (Some 100)) = Some ServerError
   \<and> bucket Mobile (getStatusCodeColor Mobile (Some 100)) = Some ServerError
   \<and> bucket Browser (getStatusCodeColor Browser (Some 100)) \<noteq> Some Neutral"
  by simp

section \<open>The handler, path by path\<close>

text \<open>
  The five ways through \<^verbatim>\<open>handleSubmit\<close>: the body is rejected before the call, the call
  rejects, the response decodes as JSON, it is read as text, or reading the text rejects.
\<close>

lemma handleSubmit_aborted:
  "options sh H st = None \<Longrightarrow>
   handleSubmit sh H fetch st =
     (st\<lparr>loading := False, error := ''Invalid JSON in request body'', response := [],
         statusCode := None\<rparr>, [])"
  by (cases sh) (simp_all del: options.simps)

lemma handleSubmit_rejected:
  "options sh H st = Some opts \<Longrightarrow> fetch (fullUrl sh st) opts = Inl err \<Longrightarrow>
   handleSubmit sh H fetch st =
     (st\<lparr>loading := False, error := ''Request failed: '' @ err_text err, response := [],
         statusCode := None\<rparr>, [(fullUrl sh st, opts)])"
  by (cases sh) (simp_all del: options.simps fullUrl.simps)

lemma handleSubmit_json:
  "options sh H st = Some opts \<Longrightarrow> fetch (fullUrl sh st) opts = Inr res \<Longrightarrow>
   res_json res = Inr data \<Longrightarrow>
   handleSubmit sh H fetch st =
     (st\<lparr>loading := False, error := [], response := JSON_stringify H data,
         statusCode := Some (res_status res)\<rparr>, [(fullUrl sh st, opts)])"
  by (cases sh) (simp_all del: options.simps fullUrl.simps)

lemma handleSubmit_text:
  "options sh H st = Some opts \<Longrightarrow> fetch (fullUrl sh st) opts = Inr res \<Longrightarrow>
   res_json res = Inl e \<Longrightarrow> res_text res = Inr txt \<Longrightarrow>
   handleSubmit sh H fetch st =
     (st\<lparr>loading := False, error := [],
         response := (if txt = [] then ''No response body'' else txt),
         statusCode := Some (res_status res)\<rparr>, [(fullUrl sh st, opts)])"
  by (cases sh) (simp_all del: options.simps fullUrl.simps)

lemma handleSubmit_text_rejected:
  "options sh H st = Some opts \<Longrightarrow> fetch (fullUrl sh st) opts = Inr res \<Longrightarrow>
   res_json res = Inl e \<Longrightarrow> res_text res = Inl err \<Longrightarrow>
   handleSubmit sh H fetch st =
     (st\<lparr>loading := False, error := ''Request failed: '' @ err_text err, response := [],
         statusCode := Some (res_status res)\<rparr>, [(fullUrl sh st, opts)])"
  by (cases sh) (simp_all del: options.simps fullUrl.simps)

text \<open>Every submission takes one of the five.\<close>

lemma submission_paths [case_names aborted rejected json read_text text_rejected]:
  obtains "options sh H st = None"
  | opts err where "options sh H st = Some opts" "fetch (fullUrl sh st) opts = Inl err"
  | opts res data where "options sh H st = Some opts" "fetch (fullUrl sh st) opts = Inr res"
      "res_json res = Inr data"
  | opts res e raw where "options sh H st = Some opts" "fetch (fullUrl sh st) opts = Inr res"
      "res_json res = Inl e" "res_text res = Inr raw"
  | opts res e err where "options sh H st = Some opts" "fetch (fullUrl sh st) opts = Inr res"
      "res_json res = Inl e" "res_text res = Inl err"
proof (cases "options sh H st")
  case None
  then show ?thesis by (rule that(1))
next
  case (Some opts)
  show ?thesis
  proof (cases "fetch (fullUrl sh st) opts")
    case (Inl err)
    with Some show ?thesis by (rule that(2))
  next
    case (Inr res)
    show ?thesis
    proof (cases "res_json res")
      case data: (Inr data)
      from Some Inr data show ?thesis by (rule that(3))
    next
      case e: (Inl e)
      show ?thesis
      proof (cases "res_text res")
        case raw: (Inr raw)
        from Some Inr e raw show ?thesis by (rule that(4))
      next
        case err: (Inl err)
        from Some Inr e err show ?thesis by (rule that(5))
      qed
    qed
  qed
qed

lemmas handleSubmit_paths =
  handleSubmit_aborted handleSubmit_rejected handleSubmit_json handleSubmit_text
  handleSubmit_text_rejected

lemma handleSubmit_calls:
  "snd (handleSubmit sh H fetch st) =
     (case options sh H st of None \<Rightarrow> [] | Some opts \<Rightarrow> [(fullUrl sh st, opts)])"
  by (cases rule: submission_paths [where sh = sh and H = H and st = st and fetch = fetch])
    (simp_all add: handleSubmit_paths)

lemma options_cases:
  "options sh H st =
     (if meth st \<noteq> GET \<and> jsonBody st \<noteq> [] \<and> JSON_parse H (jsonBody st) = None then None
      else Some \<lparr>opt_method = meth st, opt_headers = headers sh st,
                 opt_body = (if meth st \<noteq> GET \<and> jsonBody st \<noteq> [] then Some (jsonBody st)
                             else None)\<rparr>)"
  by (cases sh) (auto simp del: headers.simps simp: Let_def split: option.splits)

section \<open>Request preparation: properties\<close>

lemma fullUrl_eq:
  "fullUrl sh st =
     (if urlParams st = [] then baseUrl st @ url st
      else baseUrl st @ url st @ ''?'' @ urlParams st)"
  by (cases sh) simp_all

text \<open>
  C4. For all strings \<open>B\<close>, \<open>P\<close> and \<open>Q\<close> the built URL is \<open>B @ P\<close> when \<open>Q\<close> is
  empty and \<open>B @ P @ ''?'' @ Q\<close> otherwise: plain concatenation, nothing normalised,
  encoded or validated. It is the URL of the one call a submission makes, when it makes one.
\<close>

theorem url_builder:
  "fullUrl sh (st\<lparr>baseUrl := B, url := P, urlParams := Q\<rparr>) =
     (if Q = [] then B @ P else B @ P @ ''?'' @ Q)
   \<and> map fst (snd (handleSubmit sh H fetch st)) =
       (if options sh H st = None then [] else [fullUrl sh st])"
proof
  show "fullUrl sh (st\<lparr>baseUrl := B, url := P, urlParams := Q\<rparr>) =
     (if Q = [] then B @ P else B @ P @ ''?'' @ Q)"
    by (simp add: fullUrl_eq)
  show "map fst (snd (handleSubmit sh H fetch st)) =
       (if options sh H st = None then [] else [fullUrl sh st])"
    by (cases "options sh H st") (simp_all add: handleSubmit_calls)
qed

text \<open>The scenario of the specification, with and without the query.\<close>

theorem url_builder_witness:
  "fullUrl Browser get_users = ''http://localhost:3000/api/users?id=1''
   \<and> fullUrl Mobile (get_users\<lparr>urlParams := []\<rparr>) = ''http://localhost:3000/api/users''
   \<and> map fst (snd (handleSubmit Browser sample_host fetch_not_found get_users)) =
        [''http://localhost:3000/api/users?id=1'']"
  using url_builder [where sh = Browser and st = get_users and B = "''http://localhost:3000''"
      and P = "''/api/users''" and Q = "''id=1''" and H = sample_host and fetch = fetch_not_found]
    url_builder [where sh = Mobile and st = get_users and B = "''http://localhost:3000''"
      and P = "''/api/users''" and Q = "[]" and H = sample_host and fetch = fetch_not_found]
  by (simp add: get_users_def initial_state_def)

text \<open>
  C2. A GET never carries a body, whatever \<^verbatim>\<open>jsonBody\<close> holds; a POST or PUT with an
  empty \<^verbatim>\<open>jsonBody\<close> carries none; a POST or PUT whose non-empty \<^verbatim>\<open>jsonBody\<close> parses
  carries exactly the input string. Each holds of the prepared options and of the call
  the handler makes.
\<close>

theorem body_attachment:
  "(meth st = GET \<longrightarrow>
      map_option opt_body (options sh H st) = Some None
      \<and> map (opt_body \<circ> snd) (snd (handleSubmit sh H fetch st)) = [None])
   \<and> ((meth st = POST \<or> meth st = PUT) \<and> jsonBody st = [] \<longrightarrow>
      map_option opt_body (options sh H st) = Some None
      \<and> map (opt_body \<circ> snd) (snd (handleSubmit sh H fetch st)) = [None])
   \<and> ((meth st = POST \<or> meth st = PUT) \<and> jsonBody st \<noteq> []
        \<and> JSON_parse H (jsonBody st) \<noteq> None \<longrightarrow>
      map_option opt_body (options sh H st) = Some (Some (jsonBody st))
      \<and> map (opt_body \<circ> snd) (snd (handleSubmit sh H fetch st)) = [Some (jsonBody st)])"
  by (auto simp: handleSubmit_calls options_cases)

text \<open>A GET whose body field holds text that is not JSON, a PUT without body, a POST.\<close>

theorem body_attachment_witness:
  "meth get_users = GET \<and> jsonBody get_users = ''{invalid''
   \<and> map (opt_body \<circ> snd) (snd (handleSubmit Browser sample_host fetch_not_found get_users)) = [None]
   \<and> meth post_empty = PUT \<and> jsonBody post_empty = []
   \<and> map (opt_body \<circ> snd) (snd (handleSubmit Mobile sample_host fetch_not_found post_empty)) = [None]
   \<and> meth post_valid = POST \<and> JSON_parse sample_host (jsonBody post_valid) \<noteq> None
   \<and> map (opt_body \<circ> snd) (snd (handleSubmit Browser sample_host fetch_not_found post_valid)) =
        [Some ''{\"a\":1}'']"
  using body_attachment [where st = get_users and sh = Browser and H = sample_host
      and fetch = fetch_not_found]
    body_attachment [where st = post_empty and sh = Mobile and H = sample_host
      and fetch = fetch_not_found]
    body_attachment [where st = post_valid and sh = Browser and H = sample_host
      and fetch = fetch_not_found]
  by (simp add: get_users_def post_empty_def post_valid_def initial_state_def sample_host_def
      sample_parse_def)

text \<open>
  C3. A POST or PUT whose non-empty \<^verbatim>\<open>jsonBody\<close> does not parse is aborted: the
  preparation fails, the error message is the one of an invalid request body, the status
  code stays absent, and the transport is never called.
\<close>

theorem invalid_body_aborts:
  assumes "meth st = POST \<or> meth st = PUT"
    and "jsonBody st \<noteq> []"
    and "JSON_parse H (jsonBody st) = None"
  shows "options sh H st = None
    \<and> handleSubmit sh H fetch st =
        (st\<lparr>loading := False, error := ''Invalid JSON in request body'', response := [],
            statusCode := None\<rparr>, [])"
proof -
  from assms have "options sh H st = None"
    by (auto simp: options_cases)
  then show ?thesis
    by (simp add: handleSubmit_aborted)
qed

text \<open>The body \<^verbatim>\<open>{invalid\<close> of the specification.\<close>

theorem invalid_body_aborts_witness:
  "meth post_invalid = POST \<and> jsonBody post_invalid = ''{invalid''
   \<and> JSON_parse sample_host ''{invalid'' = None
   \<and> snd (handleSubmit Browser sample_host fetch_not_found post_invalid) = []
   \<and> error (fst (handleSubmit Browser sample_host fetch_not_found post_invalid)) =
        ''Invalid JSON in request body''
   \<and> statusCode (fst (handleSubmit Browser sample_host fetch_not_found post_invalid)) = None"
  using invalid_body_aborts [where st = post_invalid and H = sample_host and sh = Browser
      and fetch = fetch_not_found]
  by (simp add: post_invalid_def post_valid_def initial_state_def sample_host_def sample_parse_def)

lemma headers_eq:
  "headers sh st =
     (if useAuth st \<and> token st \<noteq> []
      then [''Content-Type'' \<mapsto> ''application/json'', ''Authorization'' \<mapsto> ''Bearer '' @ token st]
      else [''Content-Type'' \<mapsto> ''application/json''])"
  by (cases sh) (simp_all add: Let_def)

lemma options_useAuth_irrelevant:
  "token st = [] \<Longrightarrow> options sh H (st\<lparr>useAuth := b\<rparr>) = options sh H st"
  by (simp add: options_cases headers_eq)

text \<open>
  C5. The prepared headers hold an \<^verbatim>\<open>Authorization\<close> entry if and only if
  \<^verbatim>\<open>useAuth\<close> is set and the token is not empty, and then its value is \<^verbatim>\<open>Bearer\<close>,
  a space and the token. The JSON content type is always there. The headers are those of
  the call the handler makes. With \<^verbatim>\<open>useAuth\<close> set and an empty token there is no
  \<^verbatim>\<open>Authorization\<close> entry and nothing is raised: the preparation succeeds or fails,
  and the handler reports the error message, exactly as it does with \<^verbatim>\<open>useAuth\<close>
  unset.
\<close>

theorem auth_header:
  "(headers sh st ''Authorization'' \<noteq> None) = (useAuth st \<and> token st \<noteq> [])
   \<and> (useAuth st \<and> token st \<noteq> [] \<longrightarrow>
        headers sh st ''Authorization'' = Some (''Bearer '' @ token st))
   \<and> headers sh st ''Content-Type'' = Some ''application/json''
   \<and> map (opt_headers \<circ> snd) (snd (handleSubmit sh H fetch st)) =
        (if options sh H st = None then [] else [headers sh st])
   \<and> (useAuth st \<and> token st = [] \<longrightarrow>
        headers sh st ''Authorization'' = None
        \<and> (options sh H st = None) = (options sh H (st\<lparr>useAuth := False\<rparr>) = None)
        \<and> error (fst (handleSubmit sh H fetch st)) =
            error (fst (handleSubmit sh H fetch (st\<lparr>useAuth := False\<rparr>))))"
proof (intro conjI impI)
  show "(headers sh st ''Authorization'' \<noteq> None) = (useAuth st \<and> token st \<noteq> [])"
    by (simp add: headers_eq)
  show "headers sh st ''Authorization'' = Some (''Bearer '' @ token st)"
    if "useAuth st \<and> token st \<noteq> []"
    using that by (simp add: headers_eq)
  show "headers sh st ''Content-Type'' = Some ''application/json''"
    by (simp add: headers_eq)
  show "map (opt_headers \<circ> snd) (snd (handleSubmit sh H fetch st)) =
        (if options sh H st = None then [] else [headers sh st])"
    by (simp add: handleSubmit_calls options_cases)
  show "headers sh st ''Authorization'' = None" if "useAuth st \<and> token st = []"
    using that by (simp add: headers_eq)
  show "(options sh H st = None) = (options sh H (st\<lparr>useAuth := False\<rparr>) = None)"
    if "useAuth st \<and> token st = []"
    using that by (simp add: options_useAuth_irrelevant)
  show "error (fst (handleSubmit sh H fetch st)) =
            error (fst (handleSubmit sh H fetch (st\<lparr>useAuth := False\<rparr>)))"
    if "useAuth st \<and> token st = []"
  proof -
    let ?st' = "st\<lparr>useAuth := False\<rparr>"
    from that have o: "options sh H ?st' = options sh H st"
      by (simp add: options_useAuth_irrelevant)
    have u: "fullUrl sh ?st' = fullUrl sh st"
      by (simp add: fullUrl_eq)
    show ?thesis
      by (cases rule: submission_paths [where sh = sh and H = H and st = st and fetch = fetch])
        (simp_all add: handleSubmit_paths o u)
  qed
qed

text \<open>A token \<^verbatim>\<open>abc\<close>, and \<^verbatim>\<open>useAuth\<close> with an empty token.\<close>

theorem auth_header_witness:
  "useAuth get_users \<and> token get_users = ''abc''
   \<and> headers Browser get_users ''Authorization'' = Some ''Bearer abc''
   \<and> useAuth post_valid \<and> token post_valid = []
   \<and> headers Mobile post_valid ''Authorization'' = None
   \<and> headers Mobile post_valid ''Content-Type'' = Some ''application/json''
   \<and> error (fst (handleSubmit Mobile sample_host fetch_not_found post_valid)) = []"
  using auth_header [where sh = Browser and st = get_users and H = sample_host
      and fetch = fetch_not_found]
    auth_header [where sh = Mobile and st = post_valid and H = sample_host
      and fetch = fetch_not_found]
  by (simp add: get_users_def post_valid_def initial_state_def sample_host_def sample_parse_def
      fetch_not_found_def fetch_standard_def standard_response_def)

section \<open>Response interpretation: properties\<close>

text \<open>
  What the handler does with a response of any transport. The status code is recorded,
  whatever becomes of the body. If the body decodes as JSON, the displayed text is its
  serialisation with an indentation of two; if decoding fails and \<^verbatim>\<open>res.text()\<close>
  resolves with \<open>txt\<close>, the displayed text is \<open>txt\<close>, or the placeholder
  \<^verbatim>\<open>No response body\<close> when \<open>txt\<close> is empty; if \<^verbatim>\<open>res.text()\<close> rejects, nothing is
  displayed and the error message is a \<^verbatim>\<open>Request failed:\<close> one.
\<close>

lemma response_interpreter:
  assumes "options sh H st = Some opts"
    and "fetch (fullUrl sh st) opts = Inr res"
  shows "statusCode (fst (handleSubmit sh H fetch st)) = Some (res_status res)
    \<and> (\<forall>data. res_json res = Inr data \<longrightarrow>
          response (fst (handleSubmit sh H fetch st)) = JSON_stringify H data)
    \<and> (\<forall>e txt. res_json res = Inl e \<and> res_text res = Inr txt \<longrightarrow>
          response (fst (handleSubmit sh H fetch st)) =
            (if txt = [] then ''No response body'' else txt))
    \<and> (\<forall>e err. res_json res = Inl e \<and> res_text res = Inl err \<longrightarrow>
          response (fst (handleSubmit sh H fetch st)) = []
          \<and> error (fst (handleSubmit sh H fetch st)) = ''Request failed: '' @ err_text err)"
proof (cases "res_json res")
  case (Inr data)
  with assms show ?thesis by (simp add: handleSubmit_json)
next
  case (Inl e)
  with assms show ?thesis
    by (cases "res_text res") (simp_all add: handleSubmit_text handleSubmit_text_rejected)
qed

text \<open>
  With a standard client: a body that parses is displayed re-serialised, a null body gives
  the placeholder, and a body that is there and does not parse is lost, because the
  fallback reads a body that \<^verbatim>\<open>res.json()\<close> has consumed.
\<close>

lemma standard_json_body:
  assumes "options sh H st = Some opts"
    and "JSON_parse H b = Some parsed"
  shows "handleSubmit sh H (fetch_standard H msg code (Some b)) st =
     (st\<lparr>loading := False, error := [], response := JSON_stringify H parsed,
         statusCode := Some code\<rparr>, [(fullUrl sh st, opts)])"
  using assms
  by (simp add: handleSubmit_json [where res = "standard_response H msg code (Some b)"]
      fetch_standard_def standard_response_def)

lemma standard_null_body:
  assumes "options sh H st = Some opts"
    and "JSON_parse H [] = None"
  shows "handleSubmit sh H (fetch_standard H msg code None) st =
     (st\<lparr>loading := False, error := [], response := ''No response body'',
         statusCode := Some code\<rparr>, [(fullUrl sh st, opts)])"
  using assms
  by (simp add: handleSubmit_text [where res = "standard_response H msg code None"]
      fetch_standard_def standard_response_def)

lemma standard_non_json_body:
  assumes "options sh H st = Some opts"
    and "JSON_parse H b = None"
  shows "handleSubmit sh H (fetch_standard H msg code (Some b)) st =
     (st\<lparr>loading := False, error := ''Request failed: '' @ msg, response := [],
         statusCode := Some code\<rparr>, [(fullUrl sh st, opts)])"
  using assms
  by (simp add: handleSubmit_text_rejected [where res = "standard_response H msg code (Some b)"]
      fetch_standard_def standard_response_def)

text \<open>
  The 404 scenario of the specification and the 204 response run as C6 says.
\<close>

lemma response_interpreter_examples:
  "statusCode (fst (handleSubmit Browser sample_host fetch_not_found get_users)) = Some 404
   \<and> response (fst (handleSubmit Browser sample_host fetch_not_found get_users)) =
        ''{\<newline>  \"error\": \"missing\"\<newline>}''
   \<and> statusCode (fst (handleSubmit Mobile sample_host fetch_empty get_users)) = Some 204
   \<and> response (fst (handleSubmit Mobile sample_host fetch_empty get_users)) = ''No response body''"
proof -
  have o: "options sh sample_host get_users =
      Some \<lparr>opt_method = GET, opt_headers = headers sh get_users, opt_body = None\<rparr>" for sh
    by (simp add: options_cases get_users_def initial_state_def)
  have p: "JSON_parse sample_host ''{\"error\":\"missing\"}'' =
      Some (JObject [(''error'', JString ''missing'')])"
    by (simp add: sample_host_def sample_parse_def)
  have e: "JSON_parse sample_host [] = None"
    by (simp add: sample_host_def sample_parse_def)
  show ?thesis
    unfolding fetch_not_found_def fetch_empty_def
    by (simp add: standard_json_body [OF o p] standard_null_body [OF o e])
      (simp add: sample_host_def sample_stringify_def)
qed

text \<open>
  C6 on the response 200 with the body \<^verbatim>\<open>hello\<close>, which is not JSON. C6 has the raw
  text \<^verbatim>\<open>hello\<close> displayed. In both shells the status code 200 is recorded, no text is
  displayed, and the error message is \<^verbatim>\<open>Request failed:\<close> with the client's message
  for a body read twice.
\<close>

theorem non_json_body_lost:
  "JSON_parse sample_host ''hello'' = None
   \<and> statusCode (fst (handleSubmit Browser sample_host fetch_plain get_users)) = Some 200
   \<and> response (fst (handleSubmit Browser sample_host fetch_plain get_users)) = []
   \<and> error (fst (handleSubmit Browser sample_host fetch_plain get_users)) =
        ''Request failed: body stream already read''
   \<and> statusCode (fst (handleSubmit Mobile sample_host fetch_plain get_users)) = Some 200
   \<and> response (fst (handleSubmit Mobile sample_host fetch_plain get_users)) = []
   \<and> error (fst (handleSubmit Mobile sample_host fetch_plain get_users)) =
        ''Request failed: body stream already read''"
proof -
  have o: "options sh sample_host get_users =
      Some \<lparr>opt_method = GET, opt_headers = headers sh get_users, opt_body = None\<rparr>" for sh
    by (simp add: options_cases get_users_def initial_state_def)
  have p: "JSON_parse sample_host ''hello'' = None"
    by (simp add: sample_host_def sample_parse_def)
  show ?thesis
    unfolding fetch_plain_def by (simp add: standard_non_json_body [OF o p] p)
qed

section \<open>The result of a submission: properties\<close>

lemma transport_failed_Nil: "transport_failed fetch [] = False"
  by (simp add: transport_failed_def)

lemma transport_failed_single: "transport_failed fetch [(u, opts)] = isl (fetch u opts)"
  by (simp add: transport_failed_def)

text \<open>
  C7, as the code has it. In the final state at most one of the response text and the
  error message is set. The status code is absent exactly when the transport call failed
  or the submission was aborted before any call; it is aborted exactly when the method
  is not GET and the non-empty request body is not valid JSON, and then it makes no call
  and reports the invalid body. When the transport call failed, the error message
  begins with \<^verbatim>\<open>Request failed:\<close> and the status code is absent.
\<close>

theorem response_result_invariant:
  "(response (fst (handleSubmit sh H fetch st)) = [] \<or> error (fst (handleSubmit sh H fetch st)) = [])
   \<and> (statusCode (fst (handleSubmit sh H fetch st)) = None) =
       (transport_failed fetch (snd (handleSubmit sh H fetch st)) \<or> options sh H st = None)
   \<and> (options sh H st = None) =
       (meth st \<noteq> GET \<and> jsonBody st \<noteq> [] \<and> JSON_parse H (jsonBody st) = None)
   \<and> (options sh H st = None \<longrightarrow>
        snd (handleSubmit sh H fetch st) = []
        \<and> error (fst (handleSubmit sh H fetch st)) = ''Invalid JSON in request body'')
   \<and> (transport_failed fetch (snd (handleSubmit sh H fetch st)) \<longrightarrow>
        prefix ''Request failed:'' (error (fst (handleSubmit sh H fetch st)))
        \<and> statusCode (fst (handleSubmit sh H fetch st)) = None)"
proof (cases rule: submission_paths [where sh = sh and H = H and st = st and fetch = fetch])
  case aborted
  then show ?thesis
    using options_cases [of sh H st]
    by (simp add: handleSubmit_aborted transport_failed_Nil split: if_splits)
next
  case (rejected opts err)
  then show ?thesis
    using options_cases [of sh H st]
    by (simp add: handleSubmit_rejected transport_failed_single split: if_splits)
next
  case (json opts res data)
  then show ?thesis
    using options_cases [of sh H st]
    by (simp add: handleSubmit_json transport_failed_single split: if_splits)
next
  case (read_text opts res e raw)
  then show ?thesis
    using options_cases [of sh H st]
    by (simp add: handleSubmit_text transport_failed_single split: if_splits)
next
  case (text_rejected opts res e err)
  then show ?thesis
    using options_cases [of sh H st]
    by (simp add: handleSubmit_text_rejected transport_failed_single split: if_splits)
qed

text \<open>A refused connection, and a POST whose body is not JSON.\<close>

theorem response_result_invariant_witness:
  "transport_failed fetch_refused (snd (handleSubmit Browser sample_host fetch_refused get_users))
   \<and> error (fst (handleSubmit Browser sample_host fetch_refused get_users)) =
        ''Request failed: Failed to fetch''
   \<and> statusCode (fst (handleSubmit Browser sample_host fetch_refused get_users)) = None
   \<and> options Mobile sample_host post_invalid = None
   \<and> statusCode (fst (handleSubmit Mobile sample_host fetch_refused post_invalid)) = None
   \<and> error (fst (handleSubmit Mobile sample_host fetch_refused post_invalid)) =
        ''Invalid JSON in request body''"
  using response_result_invariant [where sh = Browser and H = sample_host
      and fetch = fetch_refused and st = get_users]
    response_result_invariant [where sh = Mobile and H = sample_host
      and fetch = fetch_refused and st = post_invalid]
  by (simp add: get_users_def post_invalid_def post_valid_def initial_state_def sample_host_def
      sample_parse_def fetch_refused_def transport_failed_def)

text \<open>
  C7 as the specification words it has the status code absent only when the transport
  call itself failed. A POST with the body \<^verbatim>\<open>{invalid\<close> ends with the status code
  absent although the transport was never called, so no call failed; its error message
  is not a \<^verbatim>\<open>Request failed:\<close> one.
\<close>

theorem status_absent_counterexample:
  "statusCode (fst (handleSubmit Browser sample_host fetch_not_found post_invalid)) = None
   \<and> snd (handleSubmit Browser sample_host fetch_not_found post_invalid) = []
   \<and> \<not> transport_failed fetch_not_found
         (snd (handleSubmit Browser sample_host fetch_not_found post_invalid))
   \<and> error (fst (handleSubmit Browser sample_host fetch_not_found post_invalid)) =
        ''Invalid JSON in request body''
   \<and> statusCode (fst (handleSubmit Mobile sample_host fetch_not_found post_invalid)) = None
   \<and> snd (handleSubmit Mobile sample_host fetch_not_found post_invalid) = []"
  by (simp add: post_invalid_def post_valid_def initial_state_def sample_host_def
      sample_parse_def transport_failed_def)

section \<open>The two shells\<close>

text \<open>
  C8. For every state of the request fields, every host and every transport, the browser
  shell and the mobile shell build the same URL, the same headers and the same options
  with the same body, and their handlers end in the same state (status code, response
  text, error message and all other slots) after the same calls.
\<close>

theorem shells_agree:
  "fullUrl Browser st = fullUrl Mobile st
   \<and> headers Browser st = headers Mobile st
   \<and> options Browser H st = options Mobile H st
   \<and> map_option opt_body (options Browser H st) = map_option opt_body (options Mobile H st)
   \<and> handleSubmit Browser H fetch st = handleSubmit Mobile H fetch st"
proof -
  have u: "fullUrl Browser st = fullUrl Mobile st"
    by (simp only: fullUrl.simps)
  have h: "headers Browser st = headers Mobile st"
    by (simp only: headers.simps)
  have o: "options Browser H st = options Mobile H st"
    by (simp only: options.simps h)
  have s: "handleSubmit Browser H fetch st = handleSubmit Mobile H fetch st"
    by (simp only: handleSubmit.simps u o)
  from u h o s show ?thesis by simp
qed

text \<open>The two shells on the 404 scenario of the specification.\<close>

theorem shells_agree_witness:
  "handleSubmit Browser sample_host fetch_not_found get_users =
     handleSubmit Mobile sample_host fetch_not_found get_users
   \<and> statusCode (fst (handleSubmit Mobile sample_host fetch_not_found get_users)) = Some 404"
  using shells_agree [where H = sample_host and fetch = fetch_not_found and st = get_users]
  by (simp add: get_users_def initial_state_def sample_host_def sample_parse_def
      fetch_not_found_def fetch_standard_def standard_response_def)

section \<open>The environment store: properties\<close>

lemma saveBaseUrl_eq:
  "saveBaseUrl sh J st store =
     (st\<lparr>savedUrls := (savedUrls st)(env_name (environment st) \<mapsto> baseUrl st)\<rparr>,
      store(''apiTesterUrls'' \<mapsto>
        urls_stringify J ((savedUrls st)(env_name (environment st) \<mapsto> baseUrl st))))"
  by (cases sh) (simp_all add: Let_def)

lemma loadSavedUrls_parsed:
  "store ''apiTesterUrls'' = Some savedData \<Longrightarrow> savedData \<noteq> [] \<Longrightarrow>
   urls_parse J savedData = Some parsed \<Longrightarrow>
   loadSavedUrls sh J st store = Some (updateBaseUrl sh (st\<lparr>savedUrls := parsed\<rparr>))"
  by (cases sh) (simp_all del: updateBaseUrl.simps)

lemma savedUrls_updateBaseUrl: "savedUrls (updateBaseUrl sh st) = savedUrls st"
  by (cases sh) simp_all

text \<open>
  C9. Saving writes the map \<^verbatim>\<open>{...savedUrls, [environment]: baseUrl}\<close> to the storage,
  which is \<^verbatim>\<open>savedUrls\<close> itself when the URL on display is the one it holds, so that any
  map of the two environments can be the one saved; loading from that storage, from any
  state, yields a state whose \<^verbatim>\<open>savedUrls\<close> equals the map saved. The host's
  \<^verbatim>\<open>JSON.parse\<close> is taken to invert its \<^verbatim>\<open>JSON.stringify\<close> on the saved map, whose
  JSON text is not the empty string.
\<close>

theorem store_round_trip:
  assumes saved: "saveBaseUrl sh J st store = (st', store')"
    and codec: "urls_parse J (urls_stringify J (savedUrls st')) = Some (savedUrls st')"
    and nonempty: "urls_stringify J (savedUrls st') \<noteq> []"
  shows "savedUrls st' = (savedUrls st)(env_name (environment st) \<mapsto> baseUrl st)
    \<and> (savedUrls st (env_name (environment st)) = Some (baseUrl st) \<longrightarrow>
          savedUrls st' = savedUrls st)
    \<and> store' ''apiTesterUrls'' = Some (urls_stringify J (savedUrls st'))
    \<and> (\<exists>st''. loadSavedUrls sh J st0 store' = Some st'' \<and> savedUrls st'' = savedUrls st')"
proof -
  from saved have m: "savedUrls st' = (savedUrls st)(env_name (environment st) \<mapsto> baseUrl st)"
    and s: "store' ''apiTesterUrls'' = Some (urls_stringify J (savedUrls st'))"
    by (auto simp: saveBaseUrl_eq)
  from m have same: "savedUrls st' = savedUrls st"
    if "savedUrls st (env_name (environment st)) = Some (baseUrl st)"
    using that by (simp add: fun_upd_idem)
  from s nonempty codec
  have "\<exists>st''. loadSavedUrls sh J st0 store' = Some st'' \<and> savedUrls st'' = savedUrls st'"
    by (simp add: loadSavedUrls_parsed savedUrls_updateBaseUrl)
  with m same s show ?thesis by simp
qed

text \<open>Saving a development URL from the initial state, then loading into a fresh one.\<close>

lemma dev_urls_saved:
  "[''development'' \<mapsto> [], ''production'' \<mapsto> []](''development'' \<mapsto> ''http://localhost:3000'')
     = dev_urls"
  by (auto simp: dev_urls_def fun_eq_iff)

theorem store_round_trip_witness:
  "saveBaseUrl Browser sample_url_json (initial_state\<lparr>baseUrl := ''http://localhost:3000''\<rparr>) Map.empty
     = (initial_state\<lparr>baseUrl := ''http://localhost:3000'', savedUrls := dev_urls\<rparr>,
        [''apiTesterUrls'' \<mapsto> dev_urls_text])
   \<and> urls_parse sample_url_json (urls_stringify sample_url_json dev_urls) = Some dev_urls
   \<and> urls_stringify sample_url_json dev_urls \<noteq> []
   \<and> map_option savedUrls
        (loadSavedUrls Browser sample_url_json initial_state [''apiTesterUrls'' \<mapsto> dev_urls_text])
       = Some dev_urls"
proof -
  let ?st = "initial_state\<lparr>baseUrl := ''http://localhost:3000''\<rparr>"
  let ?st' = "initial_state\<lparr>baseUrl := ''http://localhost:3000'', savedUrls := dev_urls\<rparr>"
  have t: "urls_stringify sample_url_json dev_urls = dev_urls_text"
    by (simp add: sample_url_json_def sample_urls_stringify_def dev_urls_def dev_urls_text_def)
  have saved: "saveBaseUrl Browser sample_url_json ?st Map.empty
      = (?st', [''apiTesterUrls'' \<mapsto> dev_urls_text])"
    by (simp add: saveBaseUrl_eq initial_state_def dev_urls_saved t)
  have codec: "urls_parse sample_url_json (urls_stringify sample_url_json (savedUrls ?st'))
      = Some (savedUrls ?st')"
    by (simp add: t) (simp add: sample_url_json_def sample_urls_parse_def)
  have nonempty: "urls_stringify sample_url_json (savedUrls ?st') \<noteq> []"
    by (simp add: t) (simp add: dev_urls_text_def)
  from store_round_trip [OF saved codec nonempty, where ?st0.0 = initial_state] saved codec nonempty
  show ?thesis by auto
qed

section \<open>The model of the JSON functions: properties\<close>

text \<open>Numbers are read back from their digits.\<close>

declare show_nat.simps [simp del]

lemma show_nat_digits: "\<forall>c \<in> set (show_nat n). is_digit c"
proof (induction n rule: show_nat.induct)
  case (1 n)
  show ?case
  proof (cases "n < 10")
    case True
    then show ?thesis
      by (subst show_nat.simps) (simp add: is_digit_def)
  next
    case False
    have "n mod 10 < 10" by simp
    then have "is_digit (char_of (48 + n mod 10))"
      by (simp add: is_digit_def)
    with False 1 show ?thesis
      by (subst show_nat.simps) simp
  qed
qed

lemma show_nat_not_Nil: "show_nat n \<noteq> []"
  by (subst show_nat.simps) simp

lemma read_nat_snoc: "read_nat (ds @ [c]) = 10 * read_nat ds + (of_char c - 48)"
  by (simp add: read_nat_def)

lemma read_show_nat: "read_nat (show_nat n) = n"
proof (induction n rule: show_nat.induct)
  case (1 n)
  show ?case
  proof (cases "n < 10")
    case True
    then show ?thesis
      by (subst show_nat.simps) (simp add: read_nat_def)
  next
    case False
    have "n mod 10 < 10" by simp
    then have "(of_char (char_of (48 + n mod 10) :: char) :: nat) - 48 = n mod 10"
      by simp
    with False 1 show ?thesis
      by (subst show_nat.simps) (simp add: read_nat_snoc)
  qed
qed

lemma show_nat_leading: "1 < length (show_nat n) \<Longrightarrow> hd (show_nat n) \<noteq> CHR ''0''"
proof (induction n rule: show_nat.induct)
  case (1 n)
  show ?case
  proof (cases "n < 10")
    case True
    with 1(2) show ?thesis
      by (subst (asm) show_nat.simps) simp
  next
    case False
    then have pos: "0 < n div 10" by simp
    show ?thesis
    proof (cases "n div 10 < 10")
      case True
      with pos have "show_nat (n div 10) = [char_of (48 + n div 10)]"
        by (subst show_nat.simps) simp
      moreover have "char_of (48 + n div 10) \<noteq> CHR ''0''"
      proof
        assume "char_of (48 + n div 10) = CHR ''0''"
        then have "(of_char (char_of (48 + n div 10) :: char) :: nat) = of_char CHR ''0''"
          by simp
        with pos True show False by simp
      qed
      ultimately show ?thesis using False
        by (subst show_nat.simps) simp
    next
      case big: False
      then have "1 < length (show_nat (n div 10))"
        by (subst show_nat.simps) (simp add: show_nat_not_Nil Suc_lessI)
      with 1(1) False have "hd (show_nat (n div 10)) \<noteq> CHR ''0''" by simp
      with False show ?thesis
        by (subst show_nat.simps) (simp add: show_nat_not_Nil)
    qed
  qed
qed

lemma takeWhile_digits:
  assumes "rest = [] \<or> \<not> is_digit (hd rest)"
  shows "takeWhile is_digit (show_nat n @ rest) = show_nat n"
    and "dropWhile is_digit (show_nat n @ rest) = rest"
proof -
  from assms have t: "takeWhile is_digit rest = []" and d: "dropWhile is_digit rest = rest"
    by (cases rest; simp)+
  from show_nat_digits [of n] t show "takeWhile is_digit (show_nat n @ rest) = show_nat n"
    by (simp add: takeWhile_append2)
  from show_nat_digits [of n] d show "dropWhile is_digit (show_nat n @ rest) = rest"
    by (simp add: dropWhile_append2)
qed

lemma show_nat_no_minus: "hd (show_nat n) \<noteq> CHR ''-''"
proof -
  from show_nat_digits [of n] show_nat_not_Nil [of n] have "is_digit (hd (show_nat n))"
    by (cases "show_nat n") simp_all
  then show ?thesis by (auto simp: is_digit_def)
qed

lemma read_show_number:
  assumes "rest = [] \<or> \<not> is_digit (hd rest)"
  shows "read_number (show_int i @ rest) = Some (i, rest)"
proof -
  have digits: "read_number (show_nat n @ rest) = Some (int n, rest)"
    and minus: "read_number (CHR ''-'' # show_nat n @ rest) = Some (- int n, rest)" for n
  proof -
    have plain: "(case show_nat n @ rest of [] \<Rightarrow> False | c # r \<Rightarrow> c = CHR ''-'') = False"
      using show_nat_no_minus [of n] show_nat_not_Nil [of n] by (cases "show_nat n") auto
    have ok: "\<not> (show_nat n = [] \<or> 1 < length (show_nat n) \<and> hd (show_nat n) = CHR ''0'')"
      using show_nat_leading [of n] show_nat_not_Nil [of n] by auto
    show "read_number (show_nat n @ rest) = Some (int n, rest)"
      unfolding read_number_def plain Let_def
      using ok by (simp add: takeWhile_digits [OF assms] read_show_nat)
    show "read_number (CHR ''-'' # show_nat n @ rest) = Some (- int n, rest)"
      unfolding read_number_def Let_def
      using ok by (simp add: takeWhile_digits [OF assms] read_show_nat)
  qed
  show ?thesis
    by (cases "i < 0") (simp_all add: show_int_def digits minus)
qed

text \<open>Strings are read back from their escaped form.\<close>

lemma hex_digits: "list_all (\<lambda>n. hex_val (hex_digit n) = Some n) [0..<16]"
  by code_simp

lemma hex_val_digit: "n < 16 \<Longrightarrow> hex_val (hex_digit n) = Some n"
  using hex_digits by (simp add: list_all_iff)

lemma hex_val_zero: "hex_val CHR ''0'' = Some 0"
  by (simp add: hex_val_def is_digit_def)

lemma unicode_escape_control:
  assumes "(of_char c :: nat) < 32"
  shows "unicode_escape CHR ''0'' CHR ''0'' (hex_digit (of_char c div 16)) (hex_digit (of_char c mod 16))
    = Some c"
proof -
  from assms have "(of_char c :: nat) div 16 < 16" by simp
  moreover have "(of_char c :: nat) mod 16 < 16" by simp
  moreover have "(of_char c :: nat) div 16 * 16 + of_char c mod 16 = of_char c" by simp
  ultimately show ?thesis
    by (simp add: unicode_escape_def hex_val_digit hex_val_zero)
qed

lemma read_escape_char:
  "read_chars (escape_char c @ cs) =
     (case read_chars cs of None \<Rightarrow> None | Some (s, r) \<Rightarrow> Some (c # s, r))"
  by (auto simp: escape_char_def simple_escape_def unicode_escape_control
      split: option.splits)

lemma read_chars_escaped:
  "read_chars (concat (map escape_char s) @ CHR 0x22 # rest) = Some (s, rest)"
  by (induction s) (simp_all add: read_escape_char)

text \<open>White space before a value, an element or a member is skipped.\<close>

lemma skip_ws_spaces [simp]: "skip_ws (replicate k CHR '' '' @ s) = skip_ws s"
  by (induction k) (simp_all add: skip_ws_def is_ws_def)

lemma skip_ws_newline [simp]: "skip_ws (CHR 0x0A # s) = skip_ws s"
  by (simp add: skip_ws_def is_ws_def)

lemma skip_ws_idem [simp]: "skip_ws (skip_ws s) = skip_ws s"
  by (simp add: skip_ws_def dropWhile_idem)

lemma skip_ws_Cons: "\<not> is_ws c \<Longrightarrow> skip_ws (c # s) = c # s"
  by (simp add: skip_ws_def)

lemma parse_value_skip_ws: "parse_value n (skip_ws s) = parse_value n s"
  by (cases n) simp_all

lemma parse_elements_skip_ws: "parse_elements n (skip_ws s) = parse_elements n s"
  by (cases n) (simp_all add: parse_value_skip_ws)

lemma parse_members_skip_ws: "parse_members n (skip_ws s) = parse_members n s"
  by (cases n) simp_all

lemma parse_value_spaces [simp]:
  "parse_value n (replicate k CHR '' '' @ s) = parse_value n s"
  using parse_value_skip_ws [of n "replicate k CHR '' '' @ s"] parse_value_skip_ws [of n s]
  by simp

lemma parse_elements_newline [simp]: "parse_elements n (CHR 0x0A # s) = parse_elements n s"
  using parse_elements_skip_ws [of n "CHR 0x0A # s"] parse_elements_skip_ws [of n s]
  by simp

lemma parse_members_newline [simp]: "parse_members n (CHR 0x0A # s) = parse_members n s"
  using parse_members_skip_ws [of n "CHR 0x0A # s"] parse_members_skip_ws [of n s]
  by simp

lemma show_int_first:
  obtains c cs where "show_int i = c # cs" "c = CHR ''-'' \<or> is_digit c"
proof (cases "i < 0")
  case True
  then show ?thesis by (intro that [of "CHR ''-''"]) (simp_all add: show_int_def)
next
  case False
  obtain c cs where c: "show_nat (nat i) = c # cs"
    using show_nat_not_Nil [of "nat i"] by (cases "show_nat (nat i)") auto
  with show_nat_digits [of "nat i"] have "is_digit c" by simp
  with False c show ?thesis by (intro that [of c cs]) (simp_all add: show_int_def)
qed

lemma parse_number:
  assumes "number_end rest"
  shows "parse_value (Suc n) (show_int i @ rest) = Some (JNumber (Finite i), rest)"
proof -
  obtain c cs where c: "show_int i = c # cs" and d: "c = CHR ''-'' \<or> is_digit c"
    by (rule show_int_first)
  from d have nws: "\<not> is_ws c" and other:
    "c \<noteq> CHR ''{''" "c \<noteq> CHR ''[''" "c \<noteq> CHR 0x22" "c \<noteq> CHR ''n''" "c \<noteq> CHR ''t''"
    "c \<noteq> CHR ''f''"
    by (auto simp: is_digit_def is_ws_def)
  from assms have "read_number (show_int i @ rest) = Some (i, rest)"
    by (simp add: read_show_number number_end_def)
  with c have "read_number (c # cs @ rest) = Some (i, rest)" by simp
  with c nws other show ?thesis
    by (simp add: skip_ws_Cons)
qed

lemma parse_string:
  "parse_value (Suc n) (quote s @ rest) = Some (JString s, rest)"
  by (simp add: quote_def skip_ws_Cons is_ws_def read_chars_escaped)

lemma skip_ws_all:
  "\<forall>c \<in> set w. is_ws c \<Longrightarrow> \<not> is_ws d \<Longrightarrow> skip_ws (w @ d # s) = d # s"
  by (induction w) (simp_all add: skip_ws_def)

lemma number_end_ws:
  assumes "\<forall>c \<in> set w. is_ws c" and "\<not> is_digit d"
  shows "number_end (w @ d # s)"
proof (cases w)
  case Nil
  with assms show ?thesis by (simp add: number_end_def)
next
  case (Cons c cs)
  with assms have "is_ws c" by simp
  then have "\<not> is_digit c" by (auto simp: is_ws_def is_digit_def)
  with Cons show ?thesis by (simp add: number_end_def)
qed

lemma show_value_first:
  "\<exists>c cs. show_value ind v = c # cs \<and> \<not> is_ws c \<and> c \<noteq> CHR '']'' \<and> c \<noteq> CHR ''}''"
proof (cases v)
  case JNull
  then show ?thesis by (simp add: is_ws_def)
next
  case (JBool b)
  then show ?thesis by (simp add: is_ws_def)
next
  case (JNumber x)
  show ?thesis
  proof (cases x)
    case (Finite i)
    obtain c cs where c: "show_int i = c # cs" and d: "c = CHR ''-'' \<or> is_digit c"
      by (rule show_int_first)
    from d have "\<not> is_ws c \<and> c \<noteq> CHR '']'' \<and> c \<noteq> CHR ''}''"
      by (auto simp: is_digit_def is_ws_def)
    with JNumber Finite c show ?thesis
      by simp
  next
    case Infinity
    with JNumber show ?thesis by (simp add: is_ws_def)
  next
    case MinusInfinity
    with JNumber show ?thesis by (simp add: is_ws_def)
  qed
next
  case (JString s)
  then show ?thesis by (simp add: is_ws_def quote_def)
next
  case (JArray vs)
  then show ?thesis by (simp add: is_ws_def)
next
  case (JObject ms)
  then show ?thesis by (simp add: is_ws_def)
qed

lemma parse_value_space [simp]: "parse_value n (CHR '' '' # s) = parse_value n s"
  using parse_value_spaces [of n 1 s] by simp

lemma show_elements_first:
  assumes "vs \<noteq> []"
  shows "\<exists>d ds. skip_ws (show_elements ind vs @ s) = d # ds \<and> d \<noteq> CHR '']''"
proof -
  from assms obtain v vs' where vs: "vs = v # vs'" by (cases vs) auto
  obtain c cs where "show_value ind v = c # cs" "\<not> is_ws c" "c \<noteq> CHR '']''"
    using show_value_first [of ind v] by auto
  with vs show ?thesis by (simp add: skip_ws_Cons)
qed

lemma show_members_first:
  assumes "ms \<noteq> []"
  shows "\<exists>ds. skip_ws (show_members ind ms @ s) = CHR 0x22 # ds"
proof -
  from assms obtain m ms' where "ms = m # ms'" by (cases ms) auto
  then show ?thesis by (simp add: quote_def skip_ws_Cons is_ws_def)
qed

lemma parse_array:
  assumes "vs \<noteq> []"
    and "parse_elements k (show_elements i vs @ w @ CHR '']'' # rest) = Some (vs, rest)"
  shows "parse_value (Suc k) (CHR ''['' # CHR 0x0A # show_elements i vs @ w @ CHR '']'' # rest)
    = Some (JArray vs, rest)"
proof -
  obtain d ds where "skip_ws (show_elements i vs @ w @ CHR '']'' # rest) = d # ds" "d \<noteq> CHR '']''"
    using show_elements_first [OF assms(1)] by blast
  with assms(2) show ?thesis
    by (simp add: skip_ws_Cons is_ws_def)
qed

lemma parse_object:
  assumes "ms \<noteq> []"
    and "parse_members k (show_members i ms @ w @ CHR ''}'' # rest) = Some (ms, rest)"
  shows "parse_value (Suc k) (CHR ''{'' # CHR 0x0A # show_members i ms @ w @ CHR ''}'' # rest)
    = Some (JObject ms, rest)"
proof -
  obtain ds where "skip_ws (show_members i ms @ w @ CHR ''}'' # rest) = CHR 0x22 # ds"
    using show_members_first [OF assms(1)] by blast
  with assms(2) show ?thesis
    by (simp add: skip_ws_Cons is_ws_def)
qed

lemma parse_element:
  assumes "parse_value k (show_value i v @ t) = Some (v, t)"
    and "skip_ws t = c # cs"
  shows "parse_elements (Suc k) (replicate i CHR '' '' @ show_value i v @ t) =
    (if c = CHR '','' then
       (case parse_elements k cs of None \<Rightarrow> None | Some (vs, r) \<Rightarrow> Some (v # vs, r))
     else if c = CHR '']'' then Some ([v], cs) else None)"
  using assms by simp

lemma parse_member:
  assumes "parse_value k (show_value i v @ t) = Some (v, t)"
    and "skip_ws t = c # cs"
  shows "parse_members (Suc k)
      (replicate i CHR '' '' @ quote key @ CHR '':'' # CHR '' '' # show_value i v @ t) =
    (if c = CHR '','' then
       (case parse_members k cs of None \<Rightarrow> None | Some (ms, r) \<Rightarrow> Some ((key, v) # ms, r))
     else if c = CHR ''}'' then Some ([(key, v)], cs) else None)"
  using assms
  by (simp add: quote_def skip_ws_Cons is_ws_def read_chars_escaped)

text \<open>
  The round trip, for a value, for the elements of an array up to its closing bracket and
  for the members of an object up to its closing brace, by induction along the printer.
\<close>

lemma round_trip:
  "finite_value v \<Longrightarrow> length (show_value ind v) \<le> n \<Longrightarrow> number_end rest \<Longrightarrow>
     parse_value n (show_value ind v @ rest) = Some (v, rest)"
  "vs \<noteq> [] \<Longrightarrow> list_all finite_value vs \<Longrightarrow> 0 < ind \<Longrightarrow>
     length (show_elements ind vs) \<le> n \<Longrightarrow> \<forall>c \<in> set w. is_ws c \<Longrightarrow>
     parse_elements n (show_elements ind vs @ w @ CHR '']'' # rest) = Some (vs, rest)"
  "ms \<noteq> [] \<Longrightarrow> list_all (\<lambda>m. finite_value (snd m)) ms \<Longrightarrow> 0 < ind \<Longrightarrow>
     length (show_members ind ms) \<le> n \<Longrightarrow> \<forall>c \<in> set w. is_ws c \<Longrightarrow>
     parse_members n (show_members ind ms @ w @ CHR ''}'' # rest) = Some (ms, rest)"
proof (induction ind v and ind vs and ind ms arbitrary: n rest and n w rest and n w rest
    rule: show_value_show_elements_show_members.induct)
  case (1 ind)
  then obtain k where "n = Suc k" by (cases n) auto
  then show ?case by (simp add: skip_ws_Cons is_ws_def)
next
  case (2 ind b)
  then obtain k where "n = Suc k" by (cases n) (auto split: if_splits)
  then show ?case by (simp add: skip_ws_Cons is_ws_def)
next
  case (3 ind x)
  then obtain i where x: "x = Finite i" by (cases x) auto
  from 3 x obtain k where "n = Suc k"
    using show_int_first [of i] by (cases n) auto
  with 3 x show ?case by (simp add: parse_number del: parse_value.simps)
next
  case (4 ind s)
  then obtain k where "n = Suc k" by (cases n) (auto simp: quote_def)
  then show ?case by (simp add: parse_string del: parse_value.simps)
next
  case (5 ind vs)
  show ?case
  proof (cases "vs = []")
    case True
    with 5(3) obtain k where "n = Suc k" by (cases n) auto
    with True show ?thesis by (simp add: skip_ws_Cons is_ws_def)
  next
    case False
    with 5(3) obtain k where k: "n = Suc k" "length (show_elements (ind + 2) vs) \<le> k"
      by (cases n) auto
    let ?w = "CHR 0x0A # replicate ind CHR '' ''"
    have ws: "\<forall>c \<in> set ?w. is_ws c" by (simp add: is_ws_def)
    from 5(2) have fin: "list_all finite_value vs" by simp
    have pos: "0 < ind + 2" by simp
    from 5(1) [OF False False fin pos k(2) ws]
    have "parse_elements k (show_elements (ind + 2) vs @ ?w @ CHR '']'' # rest) = Some (vs, rest)" .
    from parse_array [OF False this] False k(1) show ?thesis by simp
  qed
next
  case (6 ind ms)
  show ?case
  proof (cases "ms = []")
    case True
    with 6(3) obtain k where "n = Suc k" by (cases n) auto
    with True show ?thesis by (simp add: skip_ws_Cons is_ws_def)
  next
    case False
    with 6(3) obtain k where k: "n = Suc k" "length (show_members (ind + 2) ms) \<le> k"
      by (cases n) auto
    let ?w = "CHR 0x0A # replicate ind CHR '' ''"
    have ws: "\<forall>c \<in> set ?w. is_ws c" by (simp add: is_ws_def)
    from 6(2) have fin: "list_all (\<lambda>m. finite_value (snd m)) ms" by simp
    have pos: "0 < ind + 2" by simp
    from 6(1) [OF False False fin pos k(2) ws]
    have "parse_members k (show_members (ind + 2) ms @ ?w @ CHR ''}'' # rest) = Some (ms, rest)" .
    from parse_object [OF False this] False k(1) show ?thesis by simp
  qed
next
  case (7 ind)
  then show ?case by simp
next
  case (8 ind v vs)
  from 8(5,6) obtain k where k: "n = Suc k" "length (show_value ind v) \<le> k"
    by (cases n) auto
  let ?t = "(if vs = [] then [] else CHR '','' # CHR 0x0A # show_elements ind vs)
      @ w @ CHR '']'' # rest"
  have end_t: "number_end ?t"
    using number_end_ws [OF 8(7), of "CHR '']''" rest]
    by (simp add: number_end_def is_digit_def)
  from 8(4) have "finite_value v" by simp
  from 8(1) [OF this k(2) end_t]
  have v: "parse_value k (show_value ind v @ ?t) = Some (v, ?t)" .
  show ?case
  proof (cases "vs = []")
    case True
    with 8(7) have "skip_ws ?t = CHR '']'' # rest"
      by (simp add: skip_ws_all is_ws_def)
    from parse_element [OF v this] True k(1) show ?thesis by simp
  next
    case False
    have t: "skip_ws ?t = CHR '','' # CHR 0x0A # show_elements ind vs @ w @ CHR '']'' # rest"
      using False by (simp add: skip_ws_Cons is_ws_def)
    from 8(4) have fin: "list_all finite_value vs" by simp
    from False 8(6) k(1) have "length (show_elements ind vs) \<le> k" by simp
    from 8(2) [OF False False fin 8(5) this 8(7)]
    have "parse_elements k (show_elements ind vs @ w @ CHR '']'' # rest) = Some (vs, rest)" .
    with parse_element [OF v t] False k(1) show ?thesis by simp
  qed
next
  case (9 ind)
  then show ?case by simp
next
  case (10 ind m ms)
  from 10(5,6) obtain k where k: "n = Suc k" "length (show_value ind (snd m)) \<le> k"
    by (cases n) auto
  let ?t = "(if ms = [] then [] else CHR '','' # CHR 0x0A # show_members ind ms)
      @ w @ CHR ''}'' # rest"
  have end_t: "number_end ?t"
    using number_end_ws [OF 10(7), of "CHR ''}''" rest]
    by (simp add: number_end_def is_digit_def)
  from 10(4) have "finite_value (snd m)" by simp
  from 10(1) [OF this k(2) end_t]
  have v: "parse_value k (show_value ind (snd m) @ ?t) = Some (snd m, ?t)" .
  show ?case
  proof (cases "ms = []")
    case True
    with 10(7) have "skip_ws ?t = CHR ''}'' # rest"
      by (simp add: skip_ws_all is_ws_def)
    from parse_member [OF v this, of "fst m"] True k(1) show ?thesis by simp
  next
    case False
    have t: "skip_ws ?t = CHR '','' # CHR 0x0A # show_members ind ms @ w @ CHR ''}'' # rest"
      using False by (simp add: skip_ws_Cons is_ws_def)
    from 10(4) have fin: "list_all (\<lambda>m. finite_value (snd m)) ms" by simp
    from False 10(6) k(1) have "length (show_members ind ms) \<le> k" by simp
    from 10(2) [OF False False fin 10(5) this 10(7)]
    have "parse_members k (show_members ind ms @ w @ CHR ''}'' # rest) = Some (ms, rest)" .
    with parse_member [OF v t, of "fst m"] False k(1) show ?thesis by simp
  qed
qed

text \<open>
  The model meets the contract: every value without a non-finite number is read back from
  its printed text.
\<close>

lemma model_round_trip: "finite_value v \<Longrightarrow> model_parse (model_stringify v) = Some v"
  using round_trip(1) [of v 0 "length (show_value 0 v)" "[]"]
  by (simp add: model_parse_def model_stringify_def number_end_def skip_ws_def)

lemma round_trips_model_host: "round_trips model_host"
  by (simp add: round_trips_def model_host_def model_round_trip)

section \<open>The Format JSON action: properties\<close>

text \<open>
  C10, as the code has it. When \<^verbatim>\<open>jsonBody\<close> does not parse, the action leaves it as
  it is and only sets the error message. When it parses to a value \<open>v\<close>, the action
  replaces it with the serialisation of \<open>v\<close> with an indentation of two and leaves the
  error message as it is. For every body whose value holds no non-finite number, the new
  text parses to the same value as the old one, on a host that meets the contract
  \<open>round_trips\<close> of the JSON functions.
\<close>

theorem format_json_body:
  "(JSON_parse H (jsonBody st) = None \<longrightarrow>
      formatJsonBody sh H st = st\<lparr>error := ''Invalid JSON in request body''\<rparr>
      \<and> jsonBody (formatJsonBody sh H st) = jsonBody st)
   \<and> (\<forall>v. JSON_parse H (jsonBody st) = Some v \<longrightarrow>
        formatJsonBody sh H st = st\<lparr>jsonBody := JSON_stringify H v\<rparr>
        \<and> error (formatJsonBody sh H st) = error st
        \<and> (round_trips H \<and> finite_value v \<longrightarrow>
             JSON_parse H (jsonBody (formatJsonBody sh H st)) = JSON_parse H (jsonBody st)))"
proof (intro conjI allI impI)
  fix v
  assume v: "JSON_parse H (jsonBody st) = Some v"
  then show f: "formatJsonBody sh H st = st\<lparr>jsonBody := JSON_stringify H v\<rparr>"
    by (cases sh) simp_all
  then show "error (formatJsonBody sh H st) = error st"
    by simp
  assume "round_trips H \<and> finite_value v"
  with v have "JSON_parse H (JSON_stringify H v) = Some v"
    unfolding round_trips_def by blast
  with v f show "JSON_parse H (jsonBody (formatJsonBody sh H st)) = JSON_parse H (jsonBody st)"
    by simp
next
  assume "JSON_parse H (jsonBody st) = None"
  then show "formatJsonBody sh H st = st\<lparr>error := ''Invalid JSON in request body''\<rparr>"
    by (cases sh) simp_all
  then show "jsonBody (formatJsonBody sh H st) = jsonBody st"
    by simp
qed

text \<open>
  The bodies \<^verbatim>\<open>{invalid\<close> and \<^verbatim>\<open>{"a":1}\<close> on the model of the JSON functions, which
  meets the contract.
\<close>

theorem format_json_body_witness:
  "round_trips model_host
   \<and> JSON_parse model_host (jsonBody post_invalid) = None
   \<and> formatJsonBody Browser model_host post_invalid =
        post_invalid\<lparr>error := ''Invalid JSON in request body''\<rparr>
   \<and> jsonBody (formatJsonBody Browser model_host post_invalid) = ''{invalid''
   \<and> JSON_parse model_host (jsonBody post_valid) = Some (JObject [(''a'', JNumber (Finite 1))])
   \<and> finite_value (JObject [(''a'', JNumber (Finite (1::int)))])
   \<and> jsonBody (formatJsonBody Mobile model_host post_valid) = ''{\<newline>  \"a\": 1\<newline>}''
   \<and> JSON_parse model_host (jsonBody (formatJsonBody Mobile model_host post_valid)) =
        Some (JObject [(''a'', JNumber (Finite 1))])"
proof -
  have invalid: "JSON_parse model_host (jsonBody post_invalid) = None"
    unfolding model_host_def post_invalid_def post_valid_def initial_state_def
    by simp code_simp
  have valid: "JSON_parse model_host (jsonBody post_valid) =
      Some (JObject [(''a'', JNumber (Finite 1))])"
    unfolding model_host_def post_valid_def initial_state_def
    by simp code_simp
  have printed: "JSON_stringify model_host (JObject [(''a'', JNumber (Finite 1))]) =
      ''{\<newline>  \"a\": 1\<newline>}''"
    unfolding model_host_def by simp code_simp
  have finite: "finite_value (JObject [(''a'', JNumber (Finite (1::int)))])"
    by simp
  from format_json_body [where H = model_host and st = post_invalid and sh = Browser]
    format_json_body [where H = model_host and st = post_valid and sh = Mobile]
    round_trips_model_host invalid valid printed finite
  show ?thesis
    by (simp add: post_invalid_def post_valid_def)
qed

text \<open>
  The sample points of the host's functions meet the contract as well: the one value
  among them that is not read back is \<^verbatim>\<open>Infinity\<close>.
\<close>

lemma round_trips_sample_host: "round_trips sample_host"
  by (auto simp: round_trips_def sample_host_def sample_parse_def sample_stringify_def
      split: if_splits)

text \<open>
  C10 as stated has the formatted text parse to the same value as the original, for every
  body that parses. The body \<^verbatim>\<open>1e999\<close> parses, to \<^verbatim>\<open>Infinity\<close>; the action replaces
  it with \<^verbatim>\<open>null\<close>, which parses to another value.
\<close>

theorem format_overflow_counterexample:
  "JSON_parse sample_host ''1e999'' = Some (JNumber Infinity)
   \<and> jsonBody (formatJsonBody Browser sample_host (initial_state\<lparr>jsonBody := ''1e999''\<rparr>)) = ''null''
   \<and> jsonBody (formatJsonBody Mobile sample_host (initial_state\<lparr>jsonBody := ''1e999''\<rparr>)) = ''null''
   \<and> JSON_parse sample_host
        (jsonBody (formatJsonBody Browser sample_host (initial_state\<lparr>jsonBody := ''1e999''\<rparr>)))
       = Some JNull
   \<and> JSON_parse sample_host
        (jsonBody (formatJsonBody Browser sample_host (initial_state\<lparr>jsonBody := ''1e999''\<rparr>)))
       \<noteq> JSON_parse sample_host ''1e999''"
  by (simp add: initial_state_def sample_host_def sample_parse_def sample_stringify_def)

end
